theory Spec2Isabelle
  imports Complex_Main
begin

section \<open>Values, envelopes and payload helpers (types/aviation.ts)\<close>

text \<open>
  A JavaScript \<open>number\<close> is modelled as an exact rational: the finite values, without
  the rounding of IEEE doubles. The two agree wherever every operand and every result is
  an integer of magnitude at most \<open>2^53\<close>; statements about arithmetic on other values
  say so in their hypotheses. A result that is \<open>NaN\<close> or infinite is a value of its own
  where the source can produce one (\<open>Date.parse\<close>, a division by zero).
\<close>

type_synonym number = rat

datatype json =
    JNull
  | JBool bool
  | JNum number
  | JStr string
  | JArr "json list"
  | JObj "(string \<times> json) list"

type_synonym payload = "string \<rightharpoonup> json"

text \<open>
  The built-ins of the JavaScript runtime that the store calls are parameters of the
  model: \<open>Date.parse\<close> (\<open>None\<close> for \<open>NaN\<close>), \<open>Date.prototype.toISOString\<close> applied to a
  clock reading, and the conversion of a number inside a template literal.
  Each action that reads the clock takes the reading \<open>now\<close> (milliseconds) as an argument.
\<close>

record js_env =
  date_parse :: "string \<Rightarrow> number option"
  to_iso :: "number \<Rightarrow> string"
  num_str :: "number \<Rightarrow> string"

text \<open>
  \<open>WorkflowEvent\<close>, with the fields the store and the connector read. \<open>ts\<close> is a string;
  the empty string stands for a missing one (both are falsy, both parse to \<open>NaN\<close>).
\<close>

record workflow_event =
  event_id :: string
  run_id :: string
  stream_id :: "string option"
  ts :: string
  sequence :: "number option"
  kind :: string
  stage_id :: "string option"
  agent_name :: "string option"
  tool_name :: "string option"
  message :: string
  payload :: "payload option"
  duration_ms :: "number option"

text \<open>The values of \<open>EventKinds\<close>.\<close>

definition RUN_STARTED :: string where "RUN_STARTED = ''run_started''"
definition RUN_COMPLETED :: string where "RUN_COMPLETED = ''run_completed''"
definition RUN_FAILED :: string where "RUN_FAILED = ''run_failed''"
definition STAGE_STARTED :: string where "STAGE_STARTED = ''stage_started''"
definition STAGE_COMPLETED :: string where "STAGE_COMPLETED = ''stage_completed''"
definition STAGE_FAILED :: string where "STAGE_FAILED = ''stage_failed''"
definition SPAN_STARTED :: string where "SPAN_STARTED = ''span.started''"
definition SPAN_ENDED :: string where "SPAN_ENDED = ''span.ended''"
definition AGENT_ACTIVATED :: string where "AGENT_ACTIVATED = ''agent.activated''"
definition AGENT_EXCLUDED :: string where "AGENT_EXCLUDED = ''agent.excluded''"
definition AGENT_EVIDENCE :: string where "AGENT_EVIDENCE = ''agent.evidence''"
definition AGENT_RECOMMENDATION :: string where "AGENT_RECOMMENDATION = ''agent.recommendation''"
definition AGENT_STREAMING :: string where "AGENT_STREAMING = ''agent.streaming''"
definition AGENT_OBJECTIVE :: string where "AGENT_OBJECTIVE = ''agent.objective''"
definition AGENT_PROGRESS :: string where "AGENT_PROGRESS = ''agent.progress''"
definition DATA_SOURCE_QUERY_START :: string where
  "DATA_SOURCE_QUERY_START = ''data_source.query_start''"
definition DATA_SOURCE_QUERY_COMPLETE :: string where
  "DATA_SOURCE_QUERY_COMPLETE = ''data_source.query_complete''"
definition EXECUTOR_INVOKED :: string where "EXECUTOR_INVOKED = ''executor.invoked''"
definition EXECUTOR_COMPLETED :: string where "EXECUTOR_COMPLETED = ''executor.completed''"
definition AGENT_COMPLETED :: string where "AGENT_COMPLETED = ''agent.completed''"
definition AGENT_COMPLETED_LEGACY :: string where "AGENT_COMPLETED_LEGACY = ''agent_completed''"
definition TOOL_CALLED :: string where "TOOL_CALLED = ''tool.called''"
definition TOOL_COMPLETED :: string where "TOOL_COMPLETED = ''tool.completed''"
definition TOOL_FAILED :: string where "TOOL_FAILED = ''tool.failed''"
definition TOOL_CALLED_LEGACY :: string where "TOOL_CALLED_LEGACY = ''tool_called''"
definition TOOL_COMPLETED_LEGACY :: string where "TOOL_COMPLETED_LEGACY = ''tool_completed''"
definition TOOL_FAILED_LEGACY :: string where "TOOL_FAILED_LEGACY = ''tool_failed''"
definition COORDINATOR_SCORING :: string where "COORDINATOR_SCORING = ''coordinator.scoring''"
definition COORDINATOR_PLAN :: string where "COORDINATOR_PLAN = ''coordinator.plan''"
definition RECOVERY_OPTION :: string where "RECOVERY_OPTION = ''recovery.option''"
definition HANDOVER :: string where "HANDOVER = ''handover''"
definition ORCHESTRATOR_PLAN :: string where "ORCHESTRATOR_PLAN = ''orchestrator.plan''"
definition ORCHESTRATOR_DECISION :: string where "ORCHESTRATOR_DECISION = ''orchestrator.decision''"
definition HEARTBEAT :: string where "HEARTBEAT = ''heartbeat''"
definition PROGRESS_UPDATE :: string where "PROGRESS_UPDATE = ''progress_update''"
definition WORKFLOW_STATUS :: string where "WORKFLOW_STATUS = ''workflow.status''"

definition EventKinds :: "string list" where
  "EventKinds =
    [RUN_STARTED, RUN_COMPLETED, RUN_FAILED, STAGE_STARTED, STAGE_COMPLETED, STAGE_FAILED,
     SPAN_STARTED, SPAN_ENDED, AGENT_ACTIVATED, AGENT_EXCLUDED, AGENT_EVIDENCE,
     AGENT_RECOMMENDATION, AGENT_STREAMING, AGENT_OBJECTIVE, AGENT_PROGRESS,
     DATA_SOURCE_QUERY_START, DATA_SOURCE_QUERY_COMPLETE, EXECUTOR_INVOKED,
     EXECUTOR_COMPLETED, AGENT_COMPLETED, AGENT_COMPLETED_LEGACY, TOOL_CALLED,
     TOOL_COMPLETED, TOOL_FAILED, TOOL_CALLED_LEGACY, TOOL_COMPLETED_LEGACY,
     TOOL_FAILED_LEGACY, COORDINATOR_SCORING, COORDINATOR_PLAN, RECOVERY_OPTION, HANDOVER,
     ORCHESTRATOR_PLAN, ORCHESTRATOR_DECISION, HEARTBEAT, PROGRESS_UPDATE, WORKFLOW_STATUS]"

subsection \<open>JavaScript idioms\<close>

text \<open>\<open>a || b\<close> on strings: the empty string is falsy.\<close>

definition orS :: "string \<Rightarrow> string \<Rightarrow> string" where
  "orS a b = (if a \<noteq> [] then a else b)"

text \<open>\<open>a || b\<close> where \<open>a\<close> may also be \<open>undefined\<close>.\<close>

fun orU :: "string option \<Rightarrow> string \<Rightarrow> string" where
  "orU None b = b"
| "orU (Some a) b = orS a b"

text \<open>\<open>a || b\<close> where both sides may be \<open>undefined\<close>.\<close>

definition orUU :: "string \<Rightarrow> string option \<Rightarrow> string option" where
  "orUU a b = (if a \<noteq> [] then Some a else b)"

text \<open>\<open>a ?? d\<close> on an optional number.\<close>

fun nullish :: "number option \<Rightarrow> number \<Rightarrow> number" where
  "nullish None d = d"
| "nullish (Some x) d = x"

text \<open>\<open>xs.slice(-n)\<close>: the last \<open>n\<close> elements, all of them when there are fewer.\<close>

definition sliceLast :: "nat \<Rightarrow> 'a list \<Rightarrow> 'a list" where
  "sliceLast n xs = drop (length xs - n) xs"

text \<open>\<open>Array.from(new Set(xs))\<close>: the first occurrence of each element, in order.\<close>

definition fromSet :: "'a list \<Rightarrow> 'a list" where
  "fromSet xs = rev (remdups (rev xs))"

text \<open>\<open>Math.round\<close>: the nearest integer, a tie going up.\<close>

definition Math_round :: "number \<Rightarrow> number" where
  "Math_round x = of_int \<lfloor>x + 1 / 2\<rfloor>"

definition len :: "'a list \<Rightarrow> number" where
  "len xs = of_nat (length xs)"

text \<open>\<open>s.includes(sub)\<close>.\<close>

fun str_includes :: "string \<Rightarrow> string \<Rightarrow> bool" where
  "str_includes [] sub = (sub = [])"
| "str_includes (c # cs) sub = (take (length sub) (c # cs) = sub \<or> str_includes cs sub)"

text \<open>\<open>xs.findIndex(p)\<close>, with \<open>None\<close> for \<open>-1\<close>.\<close>

fun findIndex :: "('a \<Rightarrow> bool) \<Rightarrow> 'a list \<Rightarrow> nat option" where
  "findIndex p [] = None"
| "findIndex p (x # xs) = (if p x then Some 0 else map_option Suc (findIndex p xs))"

text \<open>The downward loop \<open>for (i = length - 1; i >= 0; i -= 1) if (p(xs[i])) return i\<close>.\<close>

definition findLastIndex :: "('a \<Rightarrow> bool) \<Rightarrow> 'a list \<Rightarrow> nat option" where
  "findLastIndex p xs =
     (case findIndex p (rev xs) of None \<Rightarrow> None | Some i \<Rightarrow> Some (length xs - 1 - i))"

subsection \<open>Payload helpers\<close>

definition payloadString :: "payload \<Rightarrow> string \<Rightarrow> string \<Rightarrow> string" where
  "payloadString p key fallback = (case p key of Some (JStr s) \<Rightarrow> s | _ \<Rightarrow> fallback)"

text \<open>
  A fallback argument that is \<open>undefined\<close>: the default of the parameter applies,
  \<open>""\<close> in \<open>payloadString\<close> and \<open>0\<close> in \<open>payloadNumber\<close>.
\<close>

fun defaultString :: "string option \<Rightarrow> string" where
  "defaultString None = []"
| "defaultString (Some s) = s"

fun defaultNumber :: "number option \<Rightarrow> number" where
  "defaultNumber None = 0"
| "defaultNumber (Some n) = n"

definition payloadNumber :: "payload \<Rightarrow> string \<Rightarrow> number \<Rightarrow> number" where
  "payloadNumber p key fallback = (case p key of Some (JNum n) \<Rightarrow> n | _ \<Rightarrow> fallback)"

definition payloadArray :: "payload \<Rightarrow> string \<Rightarrow> json list" where
  "payloadArray p key = (case p key of Some (JArr xs) \<Rightarrow> xs | _ \<Rightarrow> [])"

text \<open>\<open>event.payload || {}\<close>.\<close>

definition payloadOf :: "workflow_event \<Rightarrow> payload" where
  "payloadOf event = (case payload event of None \<Rightarrow> Map.empty | Some p \<Rightarrow> p)"

datatype timeline_status = TlPending | TlInProgress | TlCompleted

record timeline_entry =
  te_time :: string
  te_action :: string
  te_agent :: string
  te_details :: "string option"
  te_status :: timeline_status

definition parseTimelineEntry :: "json \<Rightarrow> timeline_entry option" where
  "parseTimelineEntry raw =
     (case raw of
        JObj kvs \<Rightarrow>
          (case (map_of kvs ''time'', map_of kvs ''action'') of
             (Some (JStr t), Some (JStr a)) \<Rightarrow>
               Some \<lparr> te_time = t, te_action = a,
                      te_agent = (case map_of kvs ''agent'' of Some (JStr g) \<Rightarrow> g | _ \<Rightarrow> []),
                      te_details = (case map_of kvs ''details'' of Some (JStr d) \<Rightarrow> Some d | _ \<Rightarrow> None),
                      te_status =
                        (case map_of kvs ''status'' of
                           Some (JStr s) \<Rightarrow>
                             (if s = ''pending'' then TlPending
                              else if s = ''in_progress'' then TlInProgress
                              else if s = ''completed'' then TlCompleted
                              else TlPending)
                         | _ \<Rightarrow> TlPending) \<rparr>
           | _ \<Rightarrow> None)
      | _ \<Rightarrow> None)"

record recovery_scores =
  delay_reduction :: number
  crew_margin :: number
  safety_score :: number
  cost_impact :: number
  passenger_impact :: number

definition scoreField :: "(string \<times> json) list \<Rightarrow> string \<Rightarrow> number" where
  "scoreField kvs key = (case map_of kvs key of Some (JNum n) \<Rightarrow> n | _ \<Rightarrow> 0)"

definition parseRecoveryScores :: "json option \<Rightarrow> recovery_scores" where
  "parseRecoveryScores raw =
     (case raw of
        Some (JObj kvs) \<Rightarrow>
          \<lparr> delay_reduction = scoreField kvs ''delay_reduction'',
            crew_margin = scoreField kvs ''crew_margin'',
            safety_score = scoreField kvs ''safety_score'',
            cost_impact = scoreField kvs ''cost_impact'',
            passenger_impact = scoreField kvs ''passenger_impact'' \<rparr>
      | _ \<Rightarrow>
          \<lparr> delay_reduction = 0, crew_margin = 0, safety_score = 0, cost_impact = 0,
            passenger_impact = 0 \<rparr>)"


section \<open>Derived state (types/aviation.ts, store/aviation-store.ts)\<close>

datatype run_status = Pending | Running | Completed | Failed | Cancelled

datatype stage_status = StPending | StRunning | StSucceeded | StFailed | StSkipped

record stage =
  st_stage_id :: string
  st_status :: stage_status
  st_started_at :: "string option"
  st_completed_at :: "string option"
  st_duration_ms :: "number option"
  st_error_message :: "string option"

text \<open>
  The value of a division, which may be by zero. (A negative zero is not told from zero.)
\<close>

datatype quotient = Finite number | PosInfinity | NegInfinity | NaN

definition js_div :: "number \<Rightarrow> number \<Rightarrow> quotient" where
  "js_div a b =
     (if b \<noteq> 0 then Finite (a / b)
      else if a > 0 then PosInfinity
      else if a < 0 then NegInfinity
      else NaN)"

text \<open>\<open>q * k\<close> for a positive \<open>k\<close>.\<close>

fun js_scale :: "quotient \<Rightarrow> number \<Rightarrow> quotient" where
  "js_scale (Finite x) k = Finite (x * k)"
| "js_scale q k = q"

text \<open>\<open>RunMetadata\<close>, with the fields \<open>updateRunFromEvent\<close> touches.\<close>

record run_metadata =
  rm_status :: run_status
  rm_completed_at :: "string option"
  current_stage :: "string option"
  stages_completed :: number
  total_stages :: number
  progress_pct :: quotient
  stages :: "stage list"
  rm_error_message :: "string option"
  event_count :: number

record run_progress =
  rp_status :: run_status
  overallPct :: number
  agentsTotal :: number
  agentsActivated :: number
  agentsRunning :: number
  agentsDone :: number
  agentsErrored :: number
  rp_currentStep :: string
  lastEventKind :: "string option"
  lastUpdateAt :: "string option"
  rp_lastHeartbeatAt :: "string option"
  rp_eventRatePerMin :: number
  isLive :: bool
  isStale :: bool

datatype agent_status = Idle | Activated | Excluded | Thinking | Querying | Done | Error

datatype agent_category = Specialist | Coordinator | Placeholder

record agent_evidence =
  ev_id :: string
  ev_sourceType :: string
  ev_summary :: string
  ev_resultCount :: number
  ev_timestamp :: string

datatype tool_status = ToolRunning | ToolDone | ToolError

record agent_tool_call =
  tc_id :: string
  toolName :: string
  tc_dataSource :: string
  tc_status :: tool_status
  tc_startedAt :: "string option"
  tc_endedAt :: "string option"
  tc_latencyMs :: "number option"
  tc_resultCount :: "number option"
  tc_error :: "string option"

text \<open>
  \<open>AgentNode\<close>. Arrays cast from the payload without a check (\<open>payloadArray<string>\<close>)
  stay lists of JSON values. Every field may be missing: the reducer can store an object
  that was spread from something other than an agent (see \<open>agentAt\<close> below), and such
  an object has only the fields the case of the switch wrote.
\<close>

record agent_node =
  ag_id :: "string option"
  ag_name :: "string option"
  icon :: "string option"
  color :: "string option"
  ag_status :: "agent_status option"
  ag_dataSources :: "json list option"
  included :: "bool option"
  ag_reason :: "string option"
  category :: "agent_category option"
  evidence :: "agent_evidence list option"
  toolCalls :: "agent_tool_call list option"
  recommendation :: "string option"
  confidence :: "number option"
  activeQuery :: "string option"
  currentObjective :: "string option"
  activeQuerySummary :: "string option"
  lastEvidencePreview :: "string option"
  spanStartedAt :: "string option"
  traceCount :: "number option"
  lastTraceAt :: "string option"
  ag_currentStep :: "string option"
  lastAction :: "string option"
  percentComplete :: "number option"
  ag_startedAt :: "string option"
  ag_endedAt :: "string option"
  ag_durationMs :: "number option"
  completionReason :: "string option"
  executionCount :: "number option"

record agent_edge =
  edge_id :: string
  edge_source :: string
  edge_target :: string
  edge_reason :: string
  animated :: bool
  edge_timestamp :: string

record agent_info =
  info_id :: string
  info_name :: string
  info_icon :: string
  info_color :: string
  info_dataSources :: "string list"
  info_included :: bool
  info_reason :: string

datatype provider = Azure | Fabric | Unknown

record data_source_activity =
  ds_id :: string
  ds_name :: string
  ds_type :: string
  ds_provider :: provider
  platformLabel :: string
  queryCount :: number
  totalResults :: number
  avgLatencyMs :: number
  isActive :: bool
  lastQueryTime :: "string option"
  lastQuerySummary :: "string option"
  lastAgentId :: "string option"
  sparkline :: "number list"

text \<open>
  An entry of the data-source registry is a \<open>DataSourceActivity\<close> or, when a query start
  spread something else (see \<open>sourceAt\<close> below), an object with only the four fields
  that case wrote.
\<close>

record bare_source =
  bs_isActive :: "bool option"
  bs_lastAgentId :: "string option"
  bs_lastQuerySummary :: "string option"
  bs_provider :: "provider option"

datatype source_entry = Known data_source_activity | Bare bare_source

text \<open>
  \<open>RecoveryPlan\<close>. A \<open>RecoveryOption\<close> is kept as the JSON object it is at run time: the
  options of a scoring or plan envelope are stored as they arrive.
\<close>

record recovery_plan =
  selectedOptionId :: string
  summary :: string
  timeline :: "timeline_entry list"
  plan_options :: "json list"
  criteria :: "json list"

datatype drawer_tab = TabActivity | TabTimeline | TabPlan | TabSources

text \<open>
  The state of the store. \<open>agents\<close> and \<open>dataSources\<close> hold the own properties of the two
  registry objects. \<open>agentsProtoKeys\<close> is not a field of the source: it records what the
  \<open>agents\<close> object inherits beyond \<open>Object.prototype\<close>, which is nothing unless
  \<open>initializeAgents\<close> replaced its prototype (see there).
\<close>

record store =
  currentRunId :: "string option"
  currentRun :: "run_metadata option"
  events :: "workflow_event list"
  isConnected :: bool
  lastEventId :: "string option"
  runProgress :: run_progress
  activeAgentIds :: "string list"
  completedAgentIds :: "string list"
  failedAgentIds :: "string list"
  lastMeaningfulEventAt :: "string option"
  lastHeartbeatAt :: "string option"
  eventRatePerMin :: number
  noUpdateWarning :: bool
  scenario :: "string option"
  agents :: "string \<rightharpoonup> agent_node"
  agentsProtoKeys :: "string list"
  agentEdges :: "agent_edge list"
  selectedAgentId :: "string option"
  dataSources :: "string \<rightharpoonup> source_entry"
  recoveryPlan :: "recovery_plan option"
  recoveryOptions :: "json list"
  sidebarCollapsed :: bool
  bottomDrawerTab :: drawer_tab
  bottomDrawerOpen :: bool

subsection \<open>Defaults\<close>

definition DATA_SOURCE_DEFAULTS :: "(string \<times> string \<times> string \<times> provider \<times> string) list" where
  "DATA_SOURCE_DEFAULTS =
    [(''SQL'', ''Azure PostgreSQL'', ''SQL'', Azure, ''Azure Data''),
     (''KQL'', ''Fabric Eventhouse'', ''KQL'', Fabric, ''Microsoft Fabric''),
     (''GRAPH'', ''Fabric Graph'', ''GRAPH'', Fabric, ''Microsoft Fabric''),
     (''VECTOR_OPS'', ''Azure AI Search (Ops)'', ''VECTOR_OPS'', Azure, ''Azure AI''),
     (''VECTOR_REG'', ''Azure AI Search (Regs)'', ''VECTOR_REG'', Azure, ''Azure AI''),
     (''VECTOR_AIRPORT'', ''Azure AI Search (Airport)'', ''VECTOR_AIRPORT'', Azure, ''Azure AI''),
     (''NOSQL'', ''Azure Cosmos DB'', ''NOSQL'', Azure, ''Azure Data''),
     (''FABRIC_SQL'', ''Fabric SQL Endpoint'', ''FABRIC_SQL'', Fabric, ''Microsoft Fabric'')]"

definition defaultDataSource ::
  "string \<times> string \<times> string \<times> provider \<times> string \<Rightarrow> data_source_activity" where
  "defaultDataSource e =
     (case e of (key, nm, ty, pr, lbl) \<Rightarrow>
        \<lparr> ds_id = key, ds_name = nm, ds_type = ty, ds_provider = pr, platformLabel = lbl,
          queryCount = 0, totalResults = 0, avgLatencyMs = 0, isActive = False,
          lastQueryTime = None, lastQuerySummary = None, lastAgentId = None,
          sparkline = [] \<rparr>)"

definition createDefaultDataSources :: "string \<rightharpoonup> source_entry" where
  "createDefaultDataSources =
     foldl (\<lambda>sources e. sources(fst e \<mapsto> Known (defaultDataSource e))) Map.empty
       DATA_SOURCE_DEFAULTS"

definition incrementAgentTrace :: "agent_node \<Rightarrow> string \<Rightarrow> agent_node" where
  "incrementAgentTrace agent t =
     agent\<lparr> traceCount := Some (nullish (traceCount agent) 0 + 1), lastTraceAt := Some t \<rparr>"

definition createDefaultRunProgress :: run_progress where
  "createDefaultRunProgress =
     \<lparr> rp_status = Pending, overallPct = 0, agentsTotal = 0, agentsActivated = 0,
       agentsRunning = 0, agentsDone = 0, agentsErrored = 0, rp_currentStep = ''idle'',
       lastEventKind = None, lastUpdateAt = None, rp_lastHeartbeatAt = None,
       rp_eventRatePerMin = 0, isLive = False, isStale = False \<rparr>"

definition isMeaningfulEvent :: "string \<Rightarrow> bool" where
  "isMeaningfulEvent k = (k \<noteq> HEARTBEAT)"

definition MAX_STORED_EVENTS :: nat where
  "MAX_STORED_EVENTS = 1500"

text \<open>The state the store is created with.\<close>

definition initialStore :: store where
  "initialStore =
     \<lparr> currentRunId = None, currentRun = None, events = [], isConnected = False,
       lastEventId = None, runProgress = createDefaultRunProgress, activeAgentIds = [],
       completedAgentIds = [], failedAgentIds = [], lastMeaningfulEventAt = None,
       lastHeartbeatAt = None, eventRatePerMin = 0, noUpdateWarning = False,
       scenario = None, agents = Map.empty, agentsProtoKeys = [], agentEdges = [],
       selectedAgentId = None,
       dataSources = createDefaultDataSources, recoveryPlan = None, recoveryOptions = [],
       sidebarCollapsed = False, bottomDrawerTab = TabTimeline, bottomDrawerOpen = True \<rparr>"


section \<open>Store actions (store/aviation-store.ts)\<close>

text \<open>
  Every action is a function from the store's state to its next state: \<open>set\<close> merges
  the returned fields into the state, \<open>get\<close> reads the current one, and the runtime
  runs one action to its end before the next. A callback of \<open>set\<close> that throws leaves
  the state as it was; the functions below that can throw return \<open>None\<close> then.
\<close>

subsection \<open>Lookups in the two registries\<close>

text \<open>
  The registries are plain objects, so \<open>registry[key]\<close> finds an own property or, failing
  that, a member the object inherits. The members of \<open>Object.prototype\<close>:
\<close>

definition ObjectPrototypeKeys :: "string list" where
  "ObjectPrototypeKeys =
    [''constructor'', ''__defineGetter__'', ''__defineSetter__'', ''hasOwnProperty'',
     ''__lookupGetter__'', ''__lookupSetter__'', ''isPrototypeOf'', ''propertyIsEnumerable'',
     ''toString'', ''valueOf'', ''__proto__'', ''toLocaleString'']"

text \<open>
  An inherited member (a function, the prototype object, a field of a replaced prototype)
  is truthy but has none of the fields the reducer reads, and spreading it copies none:
  it behaves as an agent, or a data source, without fields.
\<close>

definition emptyAgent :: agent_node where
  "emptyAgent =
     \<lparr> ag_id = None, ag_name = None, icon = None, color = None, ag_status = None,
       ag_dataSources = None, included = None, ag_reason = None, category = None,
       evidence = None, toolCalls = None, recommendation = None, confidence = None,
       activeQuery = None, currentObjective = None, activeQuerySummary = None,
       lastEvidencePreview = None, spanStartedAt = None, traceCount = None,
       lastTraceAt = None, ag_currentStep = None, lastAction = None,
       percentComplete = None, ag_startedAt = None, ag_endedAt = None,
       ag_durationMs = None, completionReason = None, executionCount = None \<rparr>"

definition emptySource :: bare_source where
  "emptySource =
     \<lparr> bs_isActive = None, bs_lastAgentId = None, bs_lastQuerySummary = None,
       bs_provider = None \<rparr>"

text \<open>The keys under which \<open>state.agents[key]\<close> finds a truthy inherited member.\<close>

definition inheritedAgentKeys :: "store \<Rightarrow> string list" where
  "inheritedAgentKeys st = ObjectPrototypeKeys @ agentsProtoKeys st"

text \<open>\<open>state.agents[key]\<close> when truthy, and \<open>state.dataSources[key]\<close> when truthy.\<close>

definition agentAt :: "store \<Rightarrow> string \<Rightarrow> agent_node option" where
  "agentAt st key =
     (case agents st key of
        Some a \<Rightarrow> Some a
      | None \<Rightarrow> if key \<in> set (inheritedAgentKeys st) then Some emptyAgent else None)"

definition sourceAt :: "store \<Rightarrow> string \<Rightarrow> source_entry option" where
  "sourceAt st key =
     (case dataSources st key of
        Some d \<Rightarrow> Some d
      | None \<Rightarrow> if key \<in> set ObjectPrototypeKeys then Some (Bare emptySource) else None)"

subsection \<open>The actions other than processAgentEvent and addEvent\<close>

definition setCurrentRunId :: "string option \<Rightarrow> store \<Rightarrow> store" where
  "setCurrentRunId runId st =
     st\<lparr> currentRunId := runId,
         runProgress :=
           (if orU runId [] \<noteq> []
            then (runProgress st)\<lparr> rp_status := Running, isLive := True,
                                    rp_currentStep := ''run_started'' \<rparr>
            else createDefaultRunProgress) \<rparr>"

definition setCurrentRun :: "run_metadata option \<Rightarrow> store \<Rightarrow> store" where
  "setCurrentRun run st = st\<lparr> currentRun := run \<rparr>"

text \<open>\<open>stages.find(p)\<close> followed by an assignment to the stage found: the first match changes.\<close>

fun updateFirst :: "('a \<Rightarrow> bool) \<Rightarrow> ('a \<Rightarrow> 'a) \<Rightarrow> 'a list \<Rightarrow> 'a list" where
  "updateFirst p f [] = []"
| "updateFirst p f (x # xs) = (if p x then f x # xs else x # updateFirst p f xs)"

definition updateRunFromEvent :: "workflow_event \<Rightarrow> store \<Rightarrow> store" where
  "updateRunFromEvent event st =
     (case currentRun st of
        None \<Rightarrow> st
      | Some run0 \<Rightarrow>
          let sid = orU (stage_id event) [];
              run =
                (if kind event = STAGE_STARTED then
                   (if sid \<noteq> [] then
                      run0\<lparr> current_stage := Some sid,
                            stages := updateFirst (\<lambda>s. st_stage_id s = sid)
                              (\<lambda>s. s\<lparr> st_status := StRunning, st_started_at := Some (ts event) \<rparr>)
                              (stages run0) \<rparr>
                    else run0)
                 else if kind event = STAGE_COMPLETED then
                   (if sid \<noteq> [] then
                      let stages' = updateFirst (\<lambda>s. st_stage_id s = sid)
                              (\<lambda>s. s\<lparr> st_status := StSucceeded,
                                        st_completed_at := Some (ts event),
                                        st_duration_ms := duration_ms event \<rparr>)
                              (stages run0);
                          completed = len (filter (\<lambda>s. st_status s = StSucceeded
                                                         \<or> st_status s = StSkipped) stages')
                      in run0\<lparr> stages := stages', stages_completed := completed,
                               progress_pct :=
                                 js_scale (js_div completed (total_stages run0)) 100 \<rparr>
                    else run0)
                 else if kind event = STAGE_FAILED then
                   (if sid \<noteq> [] then
                      run0\<lparr> stages := updateFirst (\<lambda>s. st_stage_id s = sid)
                              (\<lambda>s. s\<lparr> st_status := StFailed,
                                        st_error_message := Some (message event) \<rparr>)
                              (stages run0) \<rparr>
                    else run0)
                 else if kind event = RUN_COMPLETED then
                   run0\<lparr> rm_status := Completed, rm_completed_at := Some (ts event) \<rparr>
                 else if kind event = RUN_FAILED then
                   run0\<lparr> rm_status := Failed, rm_error_message := Some (message event) \<rparr>
                 else run0)
          in st\<lparr> currentRun := Some (run\<lparr> event_count := len (events st) + 1 \<rparr>) \<rparr>)"

definition clearEvents :: "store \<Rightarrow> store" where
  "clearEvents st =
     st\<lparr> events := [], currentRunId := None, currentRun := None, lastEventId := None,
         runProgress := createDefaultRunProgress, activeAgentIds := [],
         completedAgentIds := [], failedAgentIds := [], lastMeaningfulEventAt := None,
         lastHeartbeatAt := None, eventRatePerMin := 0, noUpdateWarning := False,
         scenario := None, agents := Map.empty, agentsProtoKeys := [], agentEdges := [],
         selectedAgentId := None,
         dataSources := createDefaultDataSources, recoveryPlan := None,
         recoveryOptions := [] \<rparr>"

definition setConnected :: "bool \<Rightarrow> store \<Rightarrow> store" where
  "setConnected conn st =
     st\<lparr> isConnected := conn,
         noUpdateWarning := (if conn then noUpdateWarning st else False),
         runProgress :=
           (runProgress st)\<lparr> isLive := conn,
                              isStale := (if conn then isStale (runProgress st)
                                          else False) \<rparr> \<rparr>"

definition noteHeartbeat :: "js_env \<Rightarrow> number \<Rightarrow> string option \<Rightarrow> store \<Rightarrow> store" where
  "noteHeartbeat env now t st =
     (let heartbeatTs = orU t (to_iso env now)
      in st\<lparr> lastHeartbeatAt := Some heartbeatTs,
              runProgress := (runProgress st)\<lparr> rp_lastHeartbeatAt := Some heartbeatTs \<rparr> \<rparr>)"

text \<open>
  \<open>lastMeaningfulMs\<close> of \<open>evaluateStaleness\<close>: \<open>Date.parse\<close> of the stored timestamp, 0
  when there is none; \<open>None\<close> is \<open>NaN\<close>, for which every comparison is false.
\<close>

definition lastMeaningfulMs :: "js_env \<Rightarrow> store \<Rightarrow> number option" where
  "lastMeaningfulMs env st =
     (if orU (lastMeaningfulEventAt st) [] \<noteq> []
      then date_parse env (orU (lastMeaningfulEventAt st) [])
      else Some 0)"

definition evaluateStaleness :: "js_env \<Rightarrow> number \<Rightarrow> number option \<Rightarrow> store \<Rightarrow> store" where
  "evaluateStaleness env clock nowMs st =
     (let now = nullish nowMs clock;
          stale = (isConnected st \<and>
                   (case lastMeaningfulMs env st of
                      None \<Rightarrow> False
                    | Some l \<Rightarrow> l > 0 \<and> now - l > 20000))
      in st\<lparr> noUpdateWarning := stale,
              runProgress := (runProgress st)\<lparr> isStale := stale \<rparr> \<rparr>)"

text \<open>
  \<open>initializeAgents\<close> fills a fresh object by \<open>agents[info.id] = {...}\<close>. For the id
  \<open>__proto__\<close> that assignment runs the setter of \<open>Object.prototype\<close>: no own property
  appears and the new agent becomes the prototype of \<open>agents\<close>, so that afterwards a
  lookup also finds the agent's fields. \<open>protoKeysOf\<close> lists those with a truthy value.
\<close>

definition newAgent :: "agent_info \<Rightarrow> agent_node" where
  "newAgent info =
     \<lparr> ag_id = Some (info_id info), ag_name = Some (info_name info),
       icon = Some (info_icon info), color = Some (info_color info),
       ag_status = Some (if info_included info then Idle else Excluded),
       ag_dataSources = Some (map JStr (info_dataSources info)),
       included = Some (info_included info), ag_reason = Some (info_reason info),
       category = Some (if str_includes (info_id info) ''coordinator''
                        then Coordinator else Specialist),
       evidence = Some [], toolCalls = Some [], recommendation = None,
       confidence = None, activeQuery = None, currentObjective = None,
       activeQuerySummary = None, lastEvidencePreview = None,
       spanStartedAt = None, traceCount = Some 0, lastTraceAt = None,
       ag_currentStep = None, lastAction = None,
       percentComplete = Some 0, ag_startedAt = None, ag_endedAt = None,
       ag_durationMs = None, completionReason = None,
       executionCount = Some 0 \<rparr>"

definition protoKeysOf :: "agent_info \<Rightarrow> string list" where
  "protoKeysOf info =
     [''id'']
     @ (if info_name info \<noteq> [] then [''name''] else [])
     @ (if info_icon info \<noteq> [] then [''icon''] else [])
     @ (if info_color info \<noteq> [] then [''color''] else [])
     @ [''status'', ''dataSources'']
     @ (if info_included info then [''included''] else [])
     @ (if info_reason info \<noteq> [] then [''reason''] else [])
     @ [''category'', ''evidence'', ''toolCalls'']"

text \<open>One turn of the loop, on the own properties and the inherited keys so far.\<close>

definition assignAgent ::
  "(string \<rightharpoonup> agent_node) \<times> string list \<Rightarrow> agent_info
     \<Rightarrow> (string \<rightharpoonup> agent_node) \<times> string list" where
  "assignAgent acc info =
     (if info_id info = ''__proto__'' then (fst acc, protoKeysOf info)
      else ((fst acc)(info_id info \<mapsto> newAgent info), snd acc))"

definition initializeAgents :: "agent_info list \<Rightarrow> string \<Rightarrow> store \<Rightarrow> store" where
  "initializeAgents agentInfos scen st =
     (let includedCount = len (filter info_included agentInfos);
          built = foldl assignAgent (Map.empty, []) agentInfos
      in st\<lparr> agents := fst built, agentsProtoKeys := snd built, scenario := Some scen,
              agentEdges := [],
              activeAgentIds := [], completedAgentIds := [], failedAgentIds := [],
              runProgress :=
                (runProgress st)\<lparr> rp_status := Running, agentsTotal := includedCount,
                                   agentsActivated := 0, agentsRunning := 0,
                                   agentsDone := 0, agentsErrored := 0, overallPct := 0,
                                   rp_currentStep := ''agents_initialized'' \<rparr> \<rparr>)"

definition setSelectedAgent :: "string option \<Rightarrow> store \<Rightarrow> store" where
  "setSelectedAgent agentId st = st\<lparr> selectedAgentId := agentId \<rparr>"

definition setSidebarCollapsed :: "bool \<Rightarrow> store \<Rightarrow> store" where
  "setSidebarCollapsed collapsed st = st\<lparr> sidebarCollapsed := collapsed \<rparr>"

definition setBottomDrawerTab :: "drawer_tab \<Rightarrow> store \<Rightarrow> store" where
  "setBottomDrawerTab tab st = st\<lparr> bottomDrawerTab := tab \<rparr>"

definition setBottomDrawerOpen :: "bool \<Rightarrow> store \<Rightarrow> store" where
  "setBottomDrawerOpen opn st = st\<lparr> bottomDrawerOpen := opn \<rparr>"


subsection \<open>processAgentEvent: the values read before the switch\<close>

definition agentIdOf :: "workflow_event \<Rightarrow> string" where
  "agentIdOf event =
     orS (payloadString (payloadOf event) ''agentId'' [])
       (orS (payloadString (payloadOf event) ''executor_id'' [])
          (orU (agent_name event) []))"

definition agentNameOf :: "workflow_event \<Rightarrow> string" where
  "agentNameOf event =
     orS (payloadString (payloadOf event) ''agentName'' [])
       (orS (payloadString (payloadOf event) ''agent_name'' [])
          (orU (agent_name event) (agentIdOf event)))"

definition reportedRunPct :: "workflow_event \<Rightarrow> number" where
  "reportedRunPct event = payloadNumber (payloadOf event) ''runProgressPct'' (- 1)"

definition reportedCurrentStep :: "workflow_event \<Rightarrow> string" where
  "reportedCurrentStep event = payloadString (payloadOf event) ''currentStep'' []"

text \<open>\<open>reportedRunPct >= 0 ? reportedRunPct : d\<close>.\<close>

definition reportedOr :: "workflow_event \<Rightarrow> number \<Rightarrow> number" where
  "reportedOr event d = (if reportedRunPct event \<ge> 0 then reportedRunPct event else d)"

text \<open>The guard \<open>agentId && get().agents[agentId]\<close>, returning the agent it found.\<close>

definition knownAgent :: "store \<Rightarrow> string \<Rightarrow> agent_node option" where
  "knownAgent st agentId = (if agentId \<noteq> [] then agentAt st agentId else None)"


text \<open>\<open>sourceProvider === "Fabric" || sourceProvider === "Azure" ? sourceProvider : d\<close>.\<close>

definition providerOr :: "string \<Rightarrow> provider \<Rightarrow> provider" where
  "providerOr sourceProvider d =
     (if sourceProvider = ''Fabric'' then Fabric
      else if sourceProvider = ''Azure'' then Azure else d)"

definition providerOrU :: "string \<Rightarrow> provider option \<Rightarrow> provider option" where
  "providerOrU sourceProvider d =
     (if sourceProvider = ''Fabric'' then Some Fabric
      else if sourceProvider = ''Azure'' then Some Azure else d)"

subsection \<open>processAgentEvent: one definition for each case of the switch\<close>

text \<open>
  A case that builds a new \<open>agents\<close> object by spreading the old one gives it the plain
  prototype again: \<open>agentsProtoKeys\<close> becomes empty there.
\<close>

definition onAgentActivated :: "workflow_event \<Rightarrow> store \<Rightarrow> store" where
  "onAgentActivated event st =
     (let p = payloadOf event; agentId = agentIdOf event; agentName = agentNameOf event
      in if agentId = [] then st
         else
           let base =
                 (case agentAt st agentId of
                    Some a \<Rightarrow> a
                  | None \<Rightarrow>
                      \<lparr> ag_id = Some agentId, ag_name = Some (orS agentName agentId),
                        icon = Some (payloadString p ''icon'' []),
                        color = Some (payloadString p ''color'' ''#6366f1''),
                        ag_status = Some Idle,
                        ag_dataSources = Some (payloadArray p ''dataSources''),
                        included = Some True,
                        ag_reason = Some (payloadString p ''reason'' []),
                        category = Some Specialist, evidence = Some [],
                        toolCalls = Some [],
                        recommendation = None, confidence = None, activeQuery = None,
                        currentObjective = None, activeQuerySummary = None,
                        lastEvidencePreview = None, spanStartedAt = None,
                        traceCount = Some 0, lastTraceAt = None, ag_currentStep = None,
                        lastAction = None, percentComplete = Some 0, ag_startedAt = None,
                        ag_endedAt = None, ag_durationMs = None, completionReason = None,
                        executionCount = Some 0 \<rparr>);
               started =
                 (case agentAt st agentId of
                    Some a \<Rightarrow> orU (ag_startedAt a) (ts event)
                  | None \<Rightarrow> ts event)
           in st\<lparr> agentsProtoKeys := [], agents := (agents st)(agentId \<mapsto>
                       (incrementAgentTrace base (ts event))
                         \<lparr> ag_status := Some Activated, ag_startedAt := Some started,
                           lastAction := Some ''activated'' \<rparr>),
                   activeAgentIds := fromSet (activeAgentIds st @ [agentId]),
                   runProgress :=
                     (runProgress st)
                       \<lparr> agentsActivated := max (agentsActivated (runProgress st))
                                               (len (activeAgentIds st) + 1),
                         agentsRunning := len (fromSet (activeAgentIds st @ [agentId])),
                         rp_currentStep := orS (reportedCurrentStep event)
                                             (''activated:'' @ agentId),
                         overallPct := reportedOr event (overallPct (runProgress st)),
                         lastEventKind := Some (kind event),
                         lastUpdateAt := Some (ts event) \<rparr> \<rparr>)"

definition onAgentExcluded :: "workflow_event \<Rightarrow> store \<Rightarrow> store" where
  "onAgentExcluded event st =
     (let agentId = agentIdOf event
      in case knownAgent st agentId of
           None \<Rightarrow> st
         | Some a \<Rightarrow>
             st\<lparr> agentsProtoKeys := [], agents := (agents st)(agentId \<mapsto>
                     (incrementAgentTrace a (ts event))
                       \<lparr> ag_status := Some Excluded, lastAction := Some ''excluded'' \<rparr>),
                 activeAgentIds := filter (\<lambda>i. i \<noteq> agentId) (activeAgentIds st),
                 runProgress :=
                   (runProgress st)
                     \<lparr> agentsRunning := len (filter (\<lambda>i. i \<noteq> agentId) (activeAgentIds st)),
                       rp_currentStep := orS (reportedCurrentStep event)
                                           (''excluded:'' @ agentId),
                       overallPct := reportedOr event (overallPct (runProgress st)),
                       lastEventKind := Some (kind event),
                       lastUpdateAt := Some (ts event) \<rparr> \<rparr>)"

definition onSpanStarted :: "workflow_event \<Rightarrow> store \<Rightarrow> store" where
  "onSpanStarted event st =
     (let p = payloadOf event; agentId = agentIdOf event
      in case knownAgent st agentId of
           None \<Rightarrow> st
         | Some a \<Rightarrow>
             let objective = orS (payloadString p ''objective'' [])
                               (orS (payloadString p ''spanName'' []) (message event))
             in st\<lparr> agentsProtoKeys := [], agents := (agents st)(agentId \<mapsto>
                        (incrementAgentTrace a (ts event))
                          \<lparr> ag_status := Some Thinking, currentObjective := Some objective,
                            spanStartedAt := Some (ts event),
                            ag_startedAt := Some (orU (ag_startedAt a) (ts event)),
                            ag_currentStep := Some (payloadString p ''currentStep'' ''analyzing''),
                            lastAction := Some ''thinking'',
                            percentComplete :=
                              Some (max (nullish (percentComplete a) 0)
                                      (payloadNumber p ''percentComplete'' 10)) \<rparr>),
                    activeAgentIds := fromSet (activeAgentIds st @ [agentId]),
                    runProgress :=
                      (runProgress st)
                        \<lparr> agentsRunning := len (fromSet (activeAgentIds st @ [agentId])),
                          rp_currentStep := orS (reportedCurrentStep event)
                                              (''thinking:'' @ agentId),
                          overallPct := reportedOr event (overallPct (runProgress st)),
                          lastEventKind := Some (kind event),
                          lastUpdateAt := Some (ts event) \<rparr> \<rparr>)"

definition onAgentObjective :: "workflow_event \<Rightarrow> store \<Rightarrow> store" where
  "onAgentObjective event st =
     (let p = payloadOf event; agentId = agentIdOf event
      in case knownAgent st agentId of
           None \<Rightarrow> st
         | Some a \<Rightarrow>
             let objective = payloadString p ''objective'' (message event);
                 currentStep = payloadString p ''currentStep'' ''objective_set''
             in st\<lparr> agentsProtoKeys := [], agents := (agents st)(agentId \<mapsto>
                        (incrementAgentTrace a (ts event))
                          \<lparr> currentObjective := Some objective,
                            ag_currentStep := Some currentStep,
                            lastAction := Some ''objective_updated'',
                            percentComplete :=
                              Some (max (nullish (percentComplete a) 0)
                                      (payloadNumber p ''percentComplete'' 5)) \<rparr>),
                    runProgress :=
                      (runProgress st)
                        \<lparr> rp_currentStep := orS (reportedCurrentStep event) currentStep,
                          overallPct := reportedOr event (overallPct (runProgress st)),
                          lastEventKind := Some (kind event),
                          lastUpdateAt := Some (ts event) \<rparr> \<rparr>)"

definition onAgentProgress :: "workflow_event \<Rightarrow> store \<Rightarrow> store" where
  "onAgentProgress event st =
     (let p = payloadOf event; agentId = agentIdOf event
      in case knownAgent st agentId of
           None \<Rightarrow> st
         | Some a \<Rightarrow>
             let pc = payloadNumber p ''percentComplete''
                        (min (nullish (percentComplete a) 0 + 6) 92);
                 currentStep = payloadString p ''currentStep'' ''streaming''
             in st\<lparr> agentsProtoKeys := [], agents := (agents st)(agentId \<mapsto>
                        (incrementAgentTrace a (ts event))
                          \<lparr> ag_status := Some Thinking, ag_currentStep := Some currentStep,
                            lastAction := Some ''streaming'',
                            percentComplete := Some pc \<rparr>),
                    activeAgentIds := fromSet (activeAgentIds st @ [agentId]),
                    runProgress :=
                      (runProgress st)
                        \<lparr> agentsRunning := len (fromSet (activeAgentIds st @ [agentId])),
                          rp_currentStep := orS (reportedCurrentStep event) currentStep,
                          overallPct := reportedOr event (overallPct (runProgress st)),
                          lastEventKind := Some (kind event),
                          lastUpdateAt := Some (ts event) \<rparr> \<rparr>)"

definition onExecutorInvoked :: "workflow_event \<Rightarrow> store \<Rightarrow> store" where
  "onExecutorInvoked event st =
     (let p = payloadOf event; agentId = agentIdOf event
      in case knownAgent st agentId of
           None \<Rightarrow> st
         | Some a \<Rightarrow>
             let currentStep = payloadString p ''currentStep'' ''executor_invoked'';
                 ec = payloadNumber p ''executionCount'' (nullish (executionCount a) 0 + 1)
             in st\<lparr> agentsProtoKeys := [], agents := (agents st)(agentId \<mapsto>
                        (incrementAgentTrace a (ts event))
                          \<lparr> ag_status := Some Thinking, ag_currentStep := Some currentStep,
                            lastAction := Some ''executor_invoked'',
                            ag_startedAt := Some (orU (ag_startedAt a) (ts event)),
                            executionCount := Some ec \<rparr>),
                    activeAgentIds := fromSet (activeAgentIds st @ [agentId]),
                    runProgress :=
                      (runProgress st)
                        \<lparr> agentsRunning := len (fromSet (activeAgentIds st @ [agentId])),
                          rp_currentStep := orS (reportedCurrentStep event) currentStep,
                          overallPct := reportedOr event (overallPct (runProgress st)),
                          lastEventKind := Some (kind event),
                          lastUpdateAt := Some (ts event) \<rparr> \<rparr>)"

definition onExecutorCompleted :: "workflow_event \<Rightarrow> store \<Rightarrow> store" where
  "onExecutorCompleted event st =
     (let p = payloadOf event; agentId = agentIdOf event
      in case knownAgent st agentId of
           None \<Rightarrow> st
         | Some a \<Rightarrow>
             let status = payloadString p ''status'' ''completed'';
                 isFailure = (status = ''failed'');
                 ec = payloadNumber p ''executionCount'' (nullish (executionCount a) 1)
             in st\<lparr> agentsProtoKeys := [], agents := (agents st)(agentId \<mapsto>
                        (incrementAgentTrace a (ts event))
                          \<lparr> ag_status := Some (if isFailure then Error else Done),
                            ag_endedAt := Some (ts event),
                            lastAction := Some ''executor_completed'',
                            percentComplete := Some (max (nullish (percentComplete a) 0) 95),
                            executionCount := Some ec \<rparr>),
                    activeAgentIds := filter (\<lambda>i. i \<noteq> agentId) (activeAgentIds st),
                    runProgress :=
                      (runProgress st)
                        \<lparr> agentsRunning :=
                            len (filter (\<lambda>i. i \<noteq> agentId) (activeAgentIds st)),
                          rp_currentStep := orS (reportedCurrentStep event)
                                              (''executor_completed:'' @ agentId),
                          overallPct := reportedOr event (overallPct (runProgress st)),
                          lastEventKind := Some (kind event),
                          lastUpdateAt := Some (ts event) \<rparr> \<rparr>)"


definition onQueryStart :: "workflow_event \<Rightarrow> store \<Rightarrow> store" where
  "onQueryStart event st =
     (let p = payloadOf event; agentId = agentIdOf event;
          sourceType = payloadString p ''sourceType'' [];
          querySummary = orS (payloadString p ''querySummary'' [])
                           (orS (payloadString p ''query'' [])
                              (''Querying '' @ sourceType @ ''...''));
          sourceProvider = payloadString p ''sourceProvider'' []
      in case knownAgent st agentId of
           None \<Rightarrow> st
         | Some a \<Rightarrow>
             st\<lparr> agentsProtoKeys := [], agents := (agents st)(agentId \<mapsto>
                     (incrementAgentTrace a (ts event))
                       \<lparr> ag_status := Some Querying, activeQuery := Some sourceType,
                         activeQuerySummary := Some querySummary,
                         ag_currentStep :=
                           Some (payloadString p ''currentStep'' (''query:'' @ sourceType)),
                         lastAction := Some ''query_started'',
                         percentComplete :=
                           Some (max (nullish (percentComplete a) 0)
                                   (payloadNumber p ''percentComplete'' 20)) \<rparr>),
                 dataSources :=
                   (case (if sourceType \<noteq> [] then sourceAt st sourceType else None) of
                      None \<Rightarrow> dataSources st
                    | Some (Known ds) \<Rightarrow>
                        (dataSources st)(sourceType \<mapsto>
                          Known (ds\<lparr> isActive := True, lastAgentId := Some agentId,
                              lastQuerySummary := Some querySummary,
                              ds_provider := providerOr sourceProvider (ds_provider ds) \<rparr>))
                    | Some (Bare b) \<Rightarrow>
                        (dataSources st)(sourceType \<mapsto>
                          Bare (b\<lparr> bs_isActive := Some True, bs_lastAgentId := Some agentId,
                              bs_lastQuerySummary := Some querySummary,
                              bs_provider := providerOrU sourceProvider (bs_provider b) \<rparr>))),
                 runProgress :=
                   (runProgress st)
                     \<lparr> rp_currentStep := orS (reportedCurrentStep event)
                                           (''query:'' @ sourceType),
                       overallPct := reportedOr event (overallPct (runProgress st)),
                       lastEventKind := Some (kind event),
                       lastUpdateAt := Some (ts event) \<rparr> \<rparr>)"

text \<open>
  The query-complete case computes \<open>newDs\<close> and \<open>newAgent\<close> inside the callback of \<open>set\<close>.
  \<open>ds.sparkline.slice\<close> throws for an entry without a sparkline, and the spread of
  \<open>agent.evidence\<close> throws for an agent without evidence: the outer \<open>None\<close> below.
\<close>

definition onQueryComplete ::
  "js_env \<Rightarrow> number \<Rightarrow> workflow_event \<Rightarrow> store \<Rightarrow> store option" where
  "onQueryComplete env now event st =
     (let p = payloadOf event; agentId = agentIdOf event;
          sourceType = payloadString p ''sourceType'' [];
          resultCount = payloadNumber p ''resultCount'' 0;
          latencyMs = payloadNumber p ''latencyMs'' 0;
          sourceProvider = payloadString p ''sourceProvider'' [];
          querySummary = payloadString p ''querySummary'' (sourceType @ '' query'');
          newDs =
            (case sourceAt st sourceType of
               None \<Rightarrow> Some None
             | Some (Bare b) \<Rightarrow> None
             | Some (Known ds) \<Rightarrow>
                 Some (Some (ds\<lparr> queryCount := queryCount ds + 1,
                           totalResults := totalResults ds + resultCount,
                           avgLatencyMs :=
                             Math_round ((avgLatencyMs ds * queryCount ds + latencyMs)
                                         / (queryCount ds + 1)),
                           isActive := False,
                           lastQueryTime := Some (ts event),
                           lastQuerySummary := Some querySummary,
                           lastAgentId := orUU agentId (lastAgentId ds),
                           ds_provider := providerOr sourceProvider (ds_provider ds),
                           sparkline := sliceLast 19 (sparkline ds) @ [latencyMs] \<rparr>)));
          newAgent =
            (case knownAgent st agentId of
               None \<Rightarrow> Some None
             | Some agent \<Rightarrow>
                 (case evidence agent of
                    None \<Rightarrow> None
                  | Some evs \<Rightarrow>
                 Some (Some ((incrementAgentTrace agent (ts event))
                   \<lparr> ag_status := Some Thinking, activeQuery := None,
                     activeQuerySummary := None,
                     ag_currentStep :=
                       Some (payloadString p ''currentStep'' (''query_complete:'' @ sourceType)),
                     lastAction := Some ''query_completed'',
                     percentComplete :=
                       Some (max (nullish (percentComplete agent) 0)
                               (payloadNumber p ''percentComplete'' 55)),
                     lastEvidencePreview :=
                       Some (num_str env resultCount @ '' results from '' @ sourceType
                             @ '' ('' @ num_str env latencyMs @ ''ms)''),
                     evidence :=
                       Some (evs @
                         [\<lparr> ev_id = ''ev-'' @ num_str env now, ev_sourceType = sourceType,
                            ev_summary = querySummary, ev_resultCount = resultCount,
                            ev_timestamp = ts event \<rparr>]) \<rparr>))))
      in case (newDs, newAgent) of
           (Some d', Some a') \<Rightarrow>
             Some (st\<lparr> dataSources :=
                (case d' of
                   Some d \<Rightarrow> (dataSources st)(sourceType \<mapsto> Known d)
                 | None \<Rightarrow> dataSources st),
              agents :=
                (case a' of
                   Some a \<Rightarrow> (agents st)(agentId \<mapsto> a)
                 | None \<Rightarrow> agents st),
              agentsProtoKeys :=
                (case a' of
                   Some a \<Rightarrow> []
                 | None \<Rightarrow> agentsProtoKeys st),
              runProgress :=
                (runProgress st)
                  \<lparr> rp_currentStep := orS (reportedCurrentStep event)
                                        (''query_complete:'' @ sourceType),
                    overallPct := reportedOr event (overallPct (runProgress st)),
                    lastEventKind := Some (kind event),
                    lastUpdateAt := Some (ts event) \<rparr> \<rparr>)
         | _ \<Rightarrow> None)"

text \<open>
  The tool and evidence cases spread or index \<open>toolCalls\<close> or \<open>evidence\<close> of the agent
  found, and throw when it has none.
\<close>

definition onToolCalled ::
  "js_env \<Rightarrow> number \<Rightarrow> workflow_event \<Rightarrow> store \<Rightarrow> store option" where
  "onToolCalled env now event st =
     (let p = payloadOf event; agentId = agentIdOf event;
          tn = payloadString p ''toolName'' (orU (tool_name event) ''tool'')
      in case knownAgent st agentId of
           None \<Rightarrow> Some st
         | Some a \<Rightarrow>
            (case toolCalls a of
               None \<Rightarrow> None
             | Some calls \<Rightarrow>
             Some (st\<lparr> agentsProtoKeys := [], agents := (agents st)(agentId \<mapsto>
                     (incrementAgentTrace a (ts event))
                       \<lparr> toolCalls :=
                           Some (calls @
                             [\<lparr> tc_id = payloadString p ''toolId'' (''tool-'' @ num_str env now),
                                toolName = tn,
                                tc_dataSource =
                                  payloadString p ''sourceType''
                                    (payloadString p ''dataSource'' ''unknown''),
                                tc_status = ToolRunning,
                                tc_startedAt = Some (ts event), tc_endedAt = None,
                                tc_latencyMs = None, tc_resultCount = None,
                                tc_error = None \<rparr>]),
                         ag_currentStep :=
                           Some (payloadString p ''currentStep'' (''tool:'' @ tn)),
                         lastAction := Some ''tool_called'' \<rparr>) \<rparr>)))"

definition onToolFinished :: "workflow_event \<Rightarrow> store \<Rightarrow> store option" where
  "onToolFinished event st =
     (let p = payloadOf event; agentId = agentIdOf event;
          tn = payloadString p ''toolName'' (orU (tool_name event) ''tool'');
          toolId = payloadString p ''toolId'' [];
          isFailure = (kind event = TOOL_FAILED \<or> kind event = TOOL_FAILED_LEGACY)
      in case knownAgent st agentId of
           None \<Rightarrow> Some st
         | Some a \<Rightarrow>
            (case toolCalls a of
               None \<Rightarrow> None
             | Some existing \<Rightarrow>
             let targetIndex =
                   (if toolId \<noteq> [] then findIndex (\<lambda>tc. tc_id tc = toolId) existing
                    else findLastIndex
                           (\<lambda>tc. toolName tc = tn \<and> tc_status tc = ToolRunning) existing);
                 updatedCalls =
                   (case targetIndex of
                      None \<Rightarrow> existing
                    | Some i \<Rightarrow>
                        existing[i :=
                          (existing ! i)
                            \<lparr> tc_status := (if isFailure then ToolError else ToolDone),
                              tc_endedAt := Some (ts event),
                              tc_latencyMs :=
                                Some (payloadNumber p ''latencyMs''
                                        (defaultNumber (tc_latencyMs (existing ! i)))),
                              tc_resultCount :=
                                Some (payloadNumber p ''resultCount''
                                        (defaultNumber (tc_resultCount (existing ! i)))),
                              tc_error :=
                                (if isFailure
                                 then Some (payloadString p ''error'' (message event))
                                 else None) \<rparr>])
             in Some (st\<lparr> agentsProtoKeys := [], agents := (agents st)(agentId \<mapsto>
                        (incrementAgentTrace a (ts event))
                          \<lparr> toolCalls := Some updatedCalls,
                            lastAction :=
                              Some (if isFailure then ''tool_failed'' else ''tool_completed'') \<rparr>) \<rparr>)))"

definition onAgentEvidence ::
  "js_env \<Rightarrow> number \<Rightarrow> workflow_event \<Rightarrow> store \<Rightarrow> store option" where
  "onAgentEvidence env now event st =
     (let p = payloadOf event; agentId = agentIdOf event
      in case knownAgent st agentId of
           None \<Rightarrow> Some st
         | Some a \<Rightarrow>
            (case evidence a of
               None \<Rightarrow> None
             | Some evs \<Rightarrow>
             Some (st\<lparr> agentsProtoKeys := [], agents := (agents st)(agentId \<mapsto>
                     (incrementAgentTrace a (ts event))
                       \<lparr> ag_currentStep :=
                           Some (payloadString p ''currentStep'' ''evidence_collected''),
                         lastAction := Some ''evidence_collected'',
                         evidence :=
                           Some (evs @
                             [\<lparr> ev_id = ''ev-'' @ num_str env now,
                                ev_sourceType = payloadString p ''sourceType'' ''unknown'',
                                ev_summary = payloadString p ''summary'' (message event),
                                ev_resultCount = payloadNumber p ''resultCount'' 0,
                                ev_timestamp = ts event \<rparr>]) \<rparr>),
                 runProgress :=
                   (runProgress st)
                     \<lparr> rp_currentStep := orS (reportedCurrentStep event) ''evidence_collected'',
                       overallPct := reportedOr event (overallPct (runProgress st)),
                       lastEventKind := Some (kind event),
                       lastUpdateAt := Some (ts event) \<rparr> \<rparr>)))"

definition onAgentRecommendation :: "workflow_event \<Rightarrow> store \<Rightarrow> store" where
  "onAgentRecommendation event st =
     (let p = payloadOf event; agentId = agentIdOf event
      in case knownAgent st agentId of
           None \<Rightarrow> st
         | Some a \<Rightarrow>
             st\<lparr> agentsProtoKeys := [], agents := (agents st)(agentId \<mapsto>
                     (incrementAgentTrace a (ts event))
                       \<lparr> recommendation := Some (payloadString p ''recommendation'' []),
                         confidence := Some (payloadNumber p ''confidence'' 0),
                         ag_currentStep :=
                           Some (payloadString p ''currentStep'' ''recommendation_ready''),
                         lastAction := Some ''recommendation_ready'',
                         percentComplete :=
                           Some (max (nullish (percentComplete a) 0) 85) \<rparr>),
                 runProgress :=
                   (runProgress st)
                     \<lparr> rp_currentStep := orS (reportedCurrentStep event)
                                           ''recommendation_ready'',
                       overallPct := reportedOr event (overallPct (runProgress st)),
                       lastEventKind := Some (kind event),
                       lastUpdateAt := Some (ts event) \<rparr> \<rparr>)"

definition onSpanEnded :: "workflow_event \<Rightarrow> store \<Rightarrow> store" where
  "onSpanEnded event st =
     (let p = payloadOf event; agentId = agentIdOf event
      in case knownAgent st agentId of
           None \<Rightarrow> st
         | Some a \<Rightarrow>
             let success = (p ''success'' \<noteq> Some (JBool False));
                 completed' = (if success then fromSet (completedAgentIds st @ [agentId])
                               else completedAgentIds st);
                 failed' = (if \<not> success then fromSet (failedAgentIds st @ [agentId])
                            else failedAgentIds st)
             in st\<lparr> agentsProtoKeys := [], agents := (agents st)(agentId \<mapsto>
                        (incrementAgentTrace a (ts event))
                          \<lparr> ag_status := Some (if success then Done else Error),
                            currentObjective := None, activeQuerySummary := None,
                            spanStartedAt := None, ag_endedAt := Some (ts event),
                            ag_durationMs :=
                              Some (payloadNumber p ''durationMs''
                                      (defaultNumber (ag_durationMs a))),
                            completionReason :=
                              Some (payloadString p ''completionReason''
                                      (if success then ''completed'' else ''failed'')),
                            lastAction := Some (if success then ''completed'' else ''failed''),
                            percentComplete :=
                              (if success then Some 100 else percentComplete a) \<rparr>),
                    activeAgentIds := filter (\<lambda>i. i \<noteq> agentId) (activeAgentIds st),
                    completedAgentIds := completed',
                    failedAgentIds := failed',
                    runProgress :=
                      (runProgress st)
                        \<lparr> agentsRunning :=
                            len (filter (\<lambda>i. i \<noteq> agentId) (activeAgentIds st)),
                          agentsDone := len completed',
                          agentsErrored := len failed',
                          rp_currentStep :=
                            orS (reportedCurrentStep event)
                              (if success then ''completed:'' @ agentId
                               else ''failed:'' @ agentId),
                          overallPct := reportedOr event (overallPct (runProgress st)),
                          lastEventKind := Some (kind event),
                          lastUpdateAt := Some (ts event) \<rparr> \<rparr>)"

definition onAgentCompleted :: "workflow_event \<Rightarrow> store \<Rightarrow> store" where
  "onAgentCompleted event st =
     (let p = payloadOf event; agentId = agentIdOf event
      in case knownAgent st agentId of
           None \<Rightarrow> st
         | Some a \<Rightarrow>
             let status = payloadString p ''status'' ''completed'';
                 isSuccess = (status \<noteq> ''failed'');
                 ec = payloadNumber p ''executionCount'' (nullish (executionCount a) 1);
                 completed' = (if isSuccess then fromSet (completedAgentIds st @ [agentId])
                               else completedAgentIds st);
                 failed' = (if \<not> isSuccess then fromSet (failedAgentIds st @ [agentId])
                            else failedAgentIds st)
             in st\<lparr> agentsProtoKeys := [], agents := (agents st)(agentId \<mapsto>
                        (incrementAgentTrace a (ts event))
                          \<lparr> ag_status := Some (if isSuccess then Done else Error),
                            recommendation :=
                              orUU (payloadString p ''summary'' []) (recommendation a),
                            completionReason :=
                              Some (payloadString p ''completionReason'' status),
                            ag_startedAt :=
                              Some (payloadString p ''startedAt''
                                      (defaultString (ag_startedAt a))),
                            ag_endedAt := Some (payloadString p ''endedAt'' (ts event)),
                            ag_durationMs :=
                              Some (payloadNumber p ''durationMs''
                                      (defaultNumber (ag_durationMs a))),
                            percentComplete := Some 100,
                            lastAction :=
                              Some (if isSuccess then ''agent_completed'' else ''agent_failed''),
                            executionCount := Some ec \<rparr>),
                    activeAgentIds := filter (\<lambda>i. i \<noteq> agentId) (activeAgentIds st),
                    completedAgentIds := completed',
                    failedAgentIds := failed',
                    runProgress :=
                      (runProgress st)
                        \<lparr> agentsRunning :=
                            len (filter (\<lambda>i. i \<noteq> agentId) (activeAgentIds st)),
                          agentsDone := len completed',
                          agentsErrored := len failed',
                          rp_currentStep := orS (reportedCurrentStep event)
                                              (''agent_completed:'' @ agentId),
                          overallPct :=
                            reportedOr event (max (overallPct (runProgress st)) 90),
                          lastEventKind := Some (kind event),
                          lastUpdateAt := Some (ts event) \<rparr> \<rparr>)"


definition onHandover :: "js_env \<Rightarrow> number \<Rightarrow> workflow_event \<Rightarrow> store \<Rightarrow> store" where
  "onHandover env now event st =
     (let p = payloadOf event;
          fromAgent = payloadString p ''fromAgent'' [];
          toAgent = payloadString p ''toAgent'' []
      in if fromAgent \<noteq> [] \<and> toAgent \<noteq> [] then
           let m1 = (case agentAt st fromAgent of
                       Some a \<Rightarrow> (agents st)(fromAgent \<mapsto> incrementAgentTrace a (ts event))
                     | None \<Rightarrow> agents st);
               m2 = (case agentAt st toAgent of
                       Some a \<Rightarrow> m1(toAgent \<mapsto> incrementAgentTrace a (ts event))
                     | None \<Rightarrow> m1)
           in st\<lparr> agents := m2, agentsProtoKeys := [],
                   agentEdges :=
                     agentEdges st @
                       [\<lparr> edge_id = ''edge-'' @ fromAgent @ ''-'' @ toAgent @ ''-''
                                     @ num_str env now,
                          edge_source = fromAgent, edge_target = toAgent,
                          edge_reason = payloadString p ''reason'' [],
                          animated = True, edge_timestamp = ts event \<rparr>],
                   runProgress :=
                     (runProgress st)
                       \<lparr> rp_currentStep := orS (reportedCurrentStep event)
                                             (''handover:'' @ fromAgent @ ''->'' @ toAgent),
                         overallPct := reportedOr event (overallPct (runProgress st)),
                         lastEventKind := Some (kind event),
                         lastUpdateAt := Some (ts event) \<rparr> \<rparr>
         else st)"

definition onCoordinatorScoring :: "workflow_event \<Rightarrow> store \<Rightarrow> store" where
  "onCoordinatorScoring event st =
     (let p = payloadOf event;
          opts = payloadArray p ''options'';
          crit = payloadArray p ''criteria'';
          st1 = st\<lparr> recoveryOptions := opts \<rparr>;
          st2 = (case recoveryPlan st1 of
                   Some pl \<Rightarrow>
                     st1\<lparr> recoveryPlan := Some (pl\<lparr> plan_options := opts, criteria := crit \<rparr>) \<rparr>
                 | None \<Rightarrow> st1)
      in st2\<lparr> bottomDrawerTab := TabPlan, bottomDrawerOpen := True \<rparr>)"

definition onCoordinatorPlan :: "workflow_event \<Rightarrow> store \<Rightarrow> store" where
  "onCoordinatorPlan event st =
     (let p = payloadOf event;
          currentOptions = recoveryOptions st;
          rawTimeline = payloadArray p ''timeline'';
          tl = List.map_filter parseTimelineEntry rawTimeline
      in st\<lparr> recoveryPlan :=
                Some \<lparr> selectedOptionId = payloadString p ''selectedOptionId'' [],
                       summary = payloadString p ''summary'' [],
                       timeline = tl,
                       plan_options = (if length currentOptions > 0 then currentOptions
                                       else payloadArray p ''options''),
                       criteria = map JStr [''delay_reduction'', ''crew_margin'',
                                    ''safety_score'', ''cost_impact'', ''passenger_impact''] \<rparr>,
              bottomDrawerTab := TabPlan, bottomDrawerOpen := True \<rparr>)"

text \<open>The \<open>overallScore\<close> of an option: the weighted sum of its five scores.\<close>

definition overallScore :: "recovery_scores \<Rightarrow> number" where
  "overallScore scores =
     delay_reduction scores * (25 / 100) + crew_margin scores * (15 / 100)
     + safety_score scores * (25 / 100) + cost_impact scores * (15 / 100)
     + passenger_impact scores * (20 / 100)"

definition onRecoveryOption :: "workflow_event \<Rightarrow> store \<Rightarrow> store" where
  "onRecoveryOption event st =
     (let p = payloadOf event;
          scores = parseRecoveryScores (p ''scores'');
          opt =
            JObj [(''optionId'', JStr (payloadString p ''optionId'' [])),
                  (''description'', JStr (payloadString p ''description'' [])),
                  (''rank'', JNum (payloadNumber p ''rank'' 0)),
                  (''scores'',
                     JObj [(''delay_reduction'', JNum (delay_reduction scores)),
                           (''crew_margin'', JNum (crew_margin scores)),
                           (''safety_score'', JNum (safety_score scores)),
                           (''cost_impact'', JNum (cost_impact scores)),
                           (''passenger_impact'', JNum (passenger_impact scores))]),
                  (''overallScore'', JNum (overallScore scores))]
      in st\<lparr> recoveryOptions := recoveryOptions st @ [opt] \<rparr>)"

definition onOrchestrator :: "workflow_event \<Rightarrow> store \<Rightarrow> store" where
  "onOrchestrator event st =
     st\<lparr> bottomDrawerTab := TabTimeline, bottomDrawerOpen := True,
         runProgress :=
           (runProgress st)
             \<lparr> rp_currentStep := orS (reportedCurrentStep event) ''orchestrator_planning'',
               overallPct := reportedOr event (overallPct (runProgress st)),
               lastEventKind := Some (kind event),
               lastUpdateAt := Some (ts event) \<rparr> \<rparr>"

definition onWorkflowStatus :: "workflow_event \<Rightarrow> store \<Rightarrow> store" where
  "onWorkflowStatus event st =
     (let p = payloadOf event;
          executorId = payloadString p ''executor_id'' [];
          workflowState = payloadString p ''workflowState'' []
      in st\<lparr> agents :=
                (case knownAgent st executorId of
                   Some a \<Rightarrow> (agents st)(executorId \<mapsto> incrementAgentTrace a (ts event))
                 | None \<Rightarrow> agents st),
              agentsProtoKeys :=
                (case knownAgent st executorId of
                   Some a \<Rightarrow> []
                 | None \<Rightarrow> agentsProtoKeys st),
              runProgress :=
                (runProgress st)
                  \<lparr> rp_currentStep :=
                      orS (reportedCurrentStep event)
                        (orS workflowState (payloadString p ''status'' ''workflow_status'')),
                    overallPct := reportedOr event (overallPct (runProgress st)),
                    lastEventKind := Some (kind event),
                    lastUpdateAt := Some (ts event) \<rparr> \<rparr>)"

definition onProgressUpdate :: "workflow_event \<Rightarrow> store \<Rightarrow> store" where
  "onProgressUpdate event st =
     (let p = payloadOf event; rp = runProgress st
      in st\<lparr> runProgress :=
                rp\<lparr> overallPct := reportedOr event (overallPct rp),
                    agentsTotal := payloadNumber p ''agentsTotal'' (agentsTotal rp),
                    agentsActivated := payloadNumber p ''agentsActivated'' (agentsActivated rp),
                    agentsRunning := payloadNumber p ''agentsRunning'' (agentsRunning rp),
                    agentsDone := payloadNumber p ''agentsDone'' (agentsDone rp),
                    agentsErrored := payloadNumber p ''agentsErrored'' (agentsErrored rp),
                    rp_currentStep := orS (reportedCurrentStep event) (rp_currentStep rp),
                    lastEventKind := Some (kind event),
                    lastUpdateAt := Some (ts event) \<rparr> \<rparr>)"

definition onRunStarted :: "workflow_event \<Rightarrow> store \<Rightarrow> store" where
  "onRunStarted event st =
     st\<lparr> runProgress :=
           (runProgress st)
             \<lparr> rp_status := Running,
               rp_currentStep := orS (reportedCurrentStep event) ''run_started'',
               overallPct := reportedOr event (max (overallPct (runProgress st)) 1),
               lastEventKind := Some (kind event),
               lastUpdateAt := Some (ts event) \<rparr> \<rparr>"

definition onRunCompleted :: "workflow_event \<Rightarrow> store \<Rightarrow> store" where
  "onRunCompleted event st =
     st\<lparr> runProgress :=
           (runProgress st)
             \<lparr> rp_status := Completed, overallPct := 100, agentsRunning := 0,
               rp_currentStep := ''run_completed'',
               lastEventKind := Some (kind event),
               lastUpdateAt := Some (ts event), isStale := False \<rparr>,
         noUpdateWarning := False \<rparr>"

definition onRunFailed :: "workflow_event \<Rightarrow> store \<Rightarrow> store" where
  "onRunFailed event st =
     st\<lparr> runProgress :=
           (runProgress st)
             \<lparr> rp_status := Failed, agentsRunning := 0,
               rp_currentStep := ''run_failed'',
               lastEventKind := Some (kind event),
               lastUpdateAt := Some (ts event), isStale := False \<rparr>,
         noUpdateWarning := False \<rparr>"

subsection \<open>processAgentEvent: the switch\<close>

definition processAgentEvent ::
  "js_env \<Rightarrow> number \<Rightarrow> workflow_event \<Rightarrow> store \<Rightarrow> store option" where
  "processAgentEvent env now event st =
     (let k = kind event in
      if k = AGENT_ACTIVATED then Some (onAgentActivated event st)
      else if k = AGENT_EXCLUDED then Some (onAgentExcluded event st)
      else if k = SPAN_STARTED then Some (onSpanStarted event st)
      else if k = AGENT_OBJECTIVE then Some (onAgentObjective event st)
      else if k = AGENT_PROGRESS \<or> k = AGENT_STREAMING then Some (onAgentProgress event st)
      else if k = EXECUTOR_INVOKED then Some (onExecutorInvoked event st)
      else if k = EXECUTOR_COMPLETED then Some (onExecutorCompleted event st)
      else if k = DATA_SOURCE_QUERY_START then Some (onQueryStart event st)
      else if k = DATA_SOURCE_QUERY_COMPLETE then onQueryComplete env now event st
      else if k = TOOL_CALLED \<or> k = TOOL_CALLED_LEGACY then onToolCalled env now event st
      else if k = TOOL_COMPLETED \<or> k = TOOL_COMPLETED_LEGACY
              \<or> k = TOOL_FAILED \<or> k = TOOL_FAILED_LEGACY then onToolFinished event st
      else if k = AGENT_EVIDENCE then onAgentEvidence env now event st
      else if k = AGENT_RECOMMENDATION then Some (onAgentRecommendation event st)
      else if k = SPAN_ENDED then Some (onSpanEnded event st)
      else if k = AGENT_COMPLETED \<or> k = AGENT_COMPLETED_LEGACY
        then Some (onAgentCompleted event st)
      else if k = HANDOVER then Some (onHandover env now event st)
      else if k = COORDINATOR_SCORING then Some (onCoordinatorScoring event st)
      else if k = COORDINATOR_PLAN then Some (onCoordinatorPlan event st)
      else if k = RECOVERY_OPTION then Some (onRecoveryOption event st)
      else if k = ORCHESTRATOR_PLAN \<or> k = ORCHESTRATOR_DECISION
        then Some (onOrchestrator event st)
      else if k = WORKFLOW_STATUS then Some (onWorkflowStatus event st)
      else if k = PROGRESS_UPDATE then Some (onProgressUpdate event st)
      else if k = RUN_STARTED then Some (onRunStarted event st)
      else if k = RUN_COMPLETED then Some (onRunCompleted event st)
      else if k = RUN_FAILED then Some (onRunFailed event st)
      else Some st)"

text \<open>The state a call leaves: the new one, or the old one when the call threw.\<close>

fun orKeep :: "store \<Rightarrow> store option \<Rightarrow> store" where
  "orKeep st None = st"
| "orKeep st (Some st') = st'"

text \<open>The case labels of the switch.\<close>

definition handledKinds :: "string list" where
  "handledKinds =
    [AGENT_ACTIVATED, AGENT_EXCLUDED, SPAN_STARTED, AGENT_OBJECTIVE, AGENT_PROGRESS,
     AGENT_STREAMING, EXECUTOR_INVOKED, EXECUTOR_COMPLETED, DATA_SOURCE_QUERY_START,
     DATA_SOURCE_QUERY_COMPLETE, TOOL_CALLED, TOOL_CALLED_LEGACY, TOOL_COMPLETED,
     TOOL_COMPLETED_LEGACY, TOOL_FAILED, TOOL_FAILED_LEGACY, AGENT_EVIDENCE,
     AGENT_RECOMMENDATION, SPAN_ENDED, AGENT_COMPLETED, AGENT_COMPLETED_LEGACY, HANDOVER,
     COORDINATOR_SCORING, COORDINATOR_PLAN, RECOVERY_OPTION, ORCHESTRATOR_PLAN,
     ORCHESTRATOR_DECISION, WORKFLOW_STATUS, PROGRESS_UPDATE, RUN_STARTED, RUN_COMPLETED,
     RUN_FAILED]"

subsection \<open>addEvent\<close>

text \<open>The fields \<open>addEvent\<close> sets itself, before it hands the event on.\<close>

definition admit :: "js_env \<Rightarrow> number \<Rightarrow> workflow_event \<Rightarrow> store \<Rightarrow> store" where
  "admit env now event st =
     (let effectiveTs = orS (ts event) (to_iso env now);
          recentEvents = sliceLast MAX_STORED_EVENTS (events st @ [event]);
          cutoffMs = now - 60000;
          rate = len (filter (\<lambda>e. case date_parse env (ts e) of
                                       None \<Rightarrow> False
                                     | Some t \<Rightarrow> t \<ge> cutoffMs \<and> kind e \<noteq> HEARTBEAT)
                        recentEvents);
          p = payloadOf event;
          runPct = payloadNumber p ''runProgressPct'' (overallPct (runProgress st));
          nextProgress =
            (runProgress st)
              \<lparr> overallPct := max (overallPct (runProgress st)) runPct,
                rp_status :=
                  (if kind event = RUN_COMPLETED then Completed
                   else if kind event = RUN_FAILED then Failed
                   else if kind event = RUN_STARTED then Running
                   else rp_status (runProgress st)),
                rp_currentStep := payloadString p ''currentStep'' (rp_currentStep (runProgress st)),
                lastEventKind := Some (kind event),
                lastUpdateAt := Some effectiveTs,
                rp_eventRatePerMin := rate,
                isLive := isConnected st \<rparr>
      in st\<lparr> events := recentEvents,
              lastEventId := Some (orU (stream_id event) (event_id event)),
              lastMeaningfulEventAt :=
                (if isMeaningfulEvent (kind event) then Some effectiveTs
                 else lastMeaningfulEventAt st),
              eventRatePerMin := rate,
              runProgress := nextProgress \<rparr>)"

text \<open>
  \<open>addEvent\<close> runs its own \<open>set\<close>, then \<open>updateRunFromEvent\<close>, then \<open>processAgentEvent\<close>.
  When the last throws, the call throws with the first two already applied.
\<close>

datatype outcome = Returned store | Threw store

fun after :: "outcome \<Rightarrow> store" where
  "after (Returned st) = st"
| "after (Threw st) = st"

definition addEvent :: "js_env \<Rightarrow> number \<Rightarrow> workflow_event \<Rightarrow> store \<Rightarrow> outcome" where
  "addEvent env now event st =
     (let st1 = updateRunFromEvent event (admit env now event st)
      in case processAgentEvent env now event st1 of
           Some st2 \<Rightarrow> Returned st2
         | None \<Rightarrow> Threw st1)"

text \<open>Whether a call of \<open>addEvent\<close> returned, rather than threw.\<close>

fun returns :: "outcome \<Rightarrow> bool" where
  "returns (Returned st) = True"
| "returns (Threw st) = False"


section \<open>The stream connector's message handler (hooks/use-sse.ts)\<close>

text \<open>
  The state of the hook that \<open>handleSSEEvent\<close> reads and writes: \<open>mountedRef\<close>,
  \<open>lastSequenceRef\<close>, and whether the event source was closed. The handler receives the
  parsed envelope, \<open>None\<close> when \<open>JSON.parse\<close> throws (the \<open>catch\<close> only logs), and the
  \<open>lastEventId\<close> of the frame. The same \<open>catch\<close> takes what \<open>addEvent\<close> throws. The
  \<open>onEvent\<close> callback belongs to the caller.
\<close>

record connector =
  mounted :: bool
  lastSequence :: number
  sourceClosed :: bool

definition truthyNumber :: "number option \<Rightarrow> bool" where
  "truthyNumber n = (case n of None \<Rightarrow> False | Some x \<Rightarrow> x \<noteq> 0)"

definition handleSSEEvent ::
  "js_env \<Rightarrow> number \<Rightarrow> workflow_event option \<Rightarrow> string \<Rightarrow> connector \<times> store
     \<Rightarrow> connector \<times> store" where
  "handleSSEEvent env now parsed frameLastEventId cs =
     (case cs of (c, st) \<Rightarrow>
        if \<not> mounted c then (c, st)
        else
          (case parsed of
             None \<Rightarrow> (c, st)
           | Some event0 \<Rightarrow>
               let event =
                     event0\<lparr> stream_id :=
                       orUU (orU (stream_id event0) frameLastEventId) None \<rparr>;
                   sq = nullish (sequence event) 0;
                   c1 = (if truthyNumber (sequence event) \<and> sq \<le> lastSequence c then c
                         else if truthyNumber (sequence event) then c\<lparr> lastSequence := sq \<rparr>
                         else c)
               in if kind event = HEARTBEAT
                  then (c1, noteHeartbeat env now (Some (ts event)) st)
                  else
                    (case addEvent env now event st of
                       Threw st1 \<Rightarrow> (c1, st1)
                     | Returned st1 \<Rightarrow>
                         if kind event = RUN_COMPLETED \<or> kind event = RUN_FAILED
                         then (c1\<lparr> sourceClosed := True \<rparr>, setConnected False st1)
                         else (c1, st1))))"

section \<open>Reachable states\<close>

text \<open>
  The actions of the store's interface, with the clock reading of those that read it.
  \<open>perform\<close> gives the state an action leaves, whether it returned or threw.
\<close>

datatype action =
    SetCurrentRunId "string option"
  | SetCurrentRun "run_metadata option"
  | UpdateRunFromEvent workflow_event
  | AddEvent number workflow_event
  | ClearEvents
  | SetConnected bool
  | NoteHeartbeat number "string option"
  | EvaluateStaleness number "number option"
  | InitializeAgents "agent_info list" string
  | SetSelectedAgent "string option"
  | ProcessAgentEvent number workflow_event
  | SetSidebarCollapsed bool
  | SetBottomDrawerTab drawer_tab
  | SetBottomDrawerOpen bool

fun perform :: "js_env \<Rightarrow> action \<Rightarrow> store \<Rightarrow> store" where
  "perform env (SetCurrentRunId r) st = setCurrentRunId r st"
| "perform env (SetCurrentRun r) st = setCurrentRun r st"
| "perform env (UpdateRunFromEvent e) st = updateRunFromEvent e st"
| "perform env (AddEvent now e) st = after (addEvent env now e st)"
| "perform env ClearEvents st = clearEvents st"
| "perform env (SetConnected c) st = setConnected c st"
| "perform env (NoteHeartbeat now t) st = noteHeartbeat env now t st"
| "perform env (EvaluateStaleness now n) st = evaluateStaleness env now n st"
| "perform env (InitializeAgents infos scen) st = initializeAgents infos scen st"
| "perform env (SetSelectedAgent a) st = setSelectedAgent a st"
| "perform env (ProcessAgentEvent now e) st = orKeep st (processAgentEvent env now e st)"
| "perform env (SetSidebarCollapsed c) st = setSidebarCollapsed c st"
| "perform env (SetBottomDrawerTab t) st = setBottomDrawerTab t st"
| "perform env (SetBottomDrawerOpen b) st = setBottomDrawerOpen b st"

text \<open>The states that some sequence of actions reaches from the initial store.\<close>

inductive reachable :: "js_env \<Rightarrow> store \<Rightarrow> bool" for env :: js_env where
  reach_init: "reachable env initialStore"
| reach_step: "reachable env st \<Longrightarrow> reachable env (perform env a st)"

section \<open>Concrete inputs\<close>

text \<open>
  A runtime for the examples: \<open>Date.parse\<close> on the two timestamps they use
  (1704067200000 is 2024-01-01T00:00:00.000Z), any other string taken as unparsable;
  no statement below reads a printed number.
\<close>

definition demoEnv :: js_env where
  "demoEnv =
     \<lparr> date_parse = (\<lambda>s. if s = ''2024-01-01T00:00:00.000Z'' then Some 1704067200000
                          else if s = ''2024-01-01T00:01:00.000Z'' then Some 1704067260000
                          else None),
       to_iso = (\<lambda>n. if n = 1704067200000 then ''2024-01-01T00:00:00.000Z''
                      else if n = 1704067260000 then ''2024-01-01T00:01:00.000Z''
                      else ''other''),
       num_str = (\<lambda>n. if n = 7 then ''7'' else if n = 120 then ''120'' else ''n'') \<rparr>"

text \<open>An envelope of a given kind and payload, stamped 2024-01-01T00:00:00.000Z.\<close>

definition envelope :: "string \<Rightarrow> (string \<times> json) list \<Rightarrow> workflow_event" where
  "envelope k kvs =
     \<lparr> event_id = ''e1'', run_id = ''r1'', stream_id = None,
       ts = ''2024-01-01T00:00:00.000Z'', sequence = None, kind = k, stage_id = None,
       agent_name = None, tool_name = None, message = [], payload = Some (map_of kvs),
       duration_ms = None \<rparr>"


text \<open>A store whose event log is full.\<close>

definition fullStore :: store where
  "fullStore = initialStore\<lparr> events := replicate 1500 (envelope ''note'' []) \<rparr>"

text \<open>A mounted connector that has seen no sequence number yet.\<close>

definition liveConnector :: connector where
  "liveConnector = \<lparr> mounted = True, lastSequence = 0, sourceClosed = False \<rparr>"

text \<open>
  The initial store after the connection opened, and the state one minute after an envelope
  stamped 2024-01-01T00:00:00.000Z was admitted, as the staleness poll leaves it.
\<close>

definition connectedStore :: store where
  "connectedStore = setConnected True initialStore"

definition staleStore :: store where
  "staleStore =
     evaluateStaleness demoEnv 0 (Some 1704067260000)
       (after (addEvent demoEnv 1704067200000 (envelope ''custom.note'' []) connectedStore))"

text \<open>The roster of the scenario: agent A included, agent B excluded.\<close>

definition agentA :: agent_info where
  "agentA = \<lparr> info_id = ''A'', info_name = ''Agent A'', info_icon = ''plane'',
      info_color = ''#000000'', info_dataSources = [''SQL''], info_included = True,
      info_reason = ''needed'' \<rparr>"

definition agentB :: agent_info where
  "agentB = \<lparr> info_id = ''B'', info_name = ''Agent B'', info_icon = ''wrench'',
      info_color = ''#ffffff'', info_dataSources = [], info_included = False,
      info_reason = ''not needed'' \<rparr>"

definition rosterStore :: store where
  "rosterStore = initializeAgents [agentA, agentB] ''hub_disruption'' initialStore"


text \<open>A completed SQL query of agent A with 7 results and the given latency.\<close>

definition sqlQuery :: "number \<Rightarrow> workflow_event" where
  "sqlQuery latency =
     envelope ''data_source.query_complete''
       [(''agentId'', JStr ''A''), (''sourceType'', JStr ''SQL''),
        (''latencyMs'', JNum latency), (''resultCount'', JNum 7)]"

text \<open>
  The other envelopes of the scenario: A is activated, A starts an SQL query, A's span
  ends with success.
\<close>

definition activatedA :: workflow_event where
  "activatedA = envelope ''agent.activated'' [(''agentId'', JStr ''A'')]"

definition queryStartA :: workflow_event where
  "queryStartA =
     envelope ''data_source.query_start'' [(''agentId'', JStr ''A''), (''sourceType'', JStr ''SQL'')]"

definition spanEndedA :: workflow_event where
  "spanEndedA = envelope ''span.ended'' [(''agentId'', JStr ''A''), (''success'', JBool True)]"

text \<open>A \<open>progress_update\<close> envelope reporting the given \<open>runProgressPct\<close>.\<close>

definition progressUpdate :: "number \<Rightarrow> workflow_event" where
  "progressUpdate pct = envelope ''progress_update'' [(''runProgressPct'', JNum pct)]"


section \<open>What the reducer leaves alone\<close>

lemmas kind_defs =
  RUN_STARTED_def RUN_COMPLETED_def RUN_FAILED_def STAGE_STARTED_def STAGE_COMPLETED_def
  STAGE_FAILED_def SPAN_STARTED_def SPAN_ENDED_def AGENT_ACTIVATED_def AGENT_EXCLUDED_def
  AGENT_EVIDENCE_def AGENT_RECOMMENDATION_def AGENT_STREAMING_def AGENT_OBJECTIVE_def
  AGENT_PROGRESS_def DATA_SOURCE_QUERY_START_def DATA_SOURCE_QUERY_COMPLETE_def
  EXECUTOR_INVOKED_def EXECUTOR_COMPLETED_def AGENT_COMPLETED_def AGENT_COMPLETED_LEGACY_def
  TOOL_CALLED_def TOOL_COMPLETED_def TOOL_FAILED_def TOOL_CALLED_LEGACY_def
  TOOL_COMPLETED_LEGACY_def TOOL_FAILED_LEGACY_def COORDINATOR_SCORING_def
  COORDINATOR_PLAN_def RECOVERY_OPTION_def HANDOVER_def ORCHESTRATOR_PLAN_def
  ORCHESTRATOR_DECISION_def HEARTBEAT_def PROGRESS_UPDATE_def WORKFLOW_STATUS_def

lemmas on_defs =
  onAgentActivated_def onAgentExcluded_def onSpanStarted_def onAgentObjective_def
  onAgentProgress_def onExecutorInvoked_def onExecutorCompleted_def onQueryStart_def
  onQueryComplete_def onToolCalled_def onToolFinished_def onAgentEvidence_def
  onAgentRecommendation_def onSpanEnded_def onAgentCompleted_def onHandover_def
  onCoordinatorScoring_def onCoordinatorPlan_def onRecoveryOption_def onOrchestrator_def
  onWorkflowStatus_def onProgressUpdate_def onRunStarted_def onRunCompleted_def
  onRunFailed_def

lemma on_events:
  "events (onAgentActivated e st) = events st"
  "events (onAgentExcluded e st) = events st"
  "events (onSpanStarted e st) = events st"
  "events (onAgentObjective e st) = events st"
  "events (onAgentProgress e st) = events st"
  "events (onExecutorInvoked e st) = events st"
  "events (onExecutorCompleted e st) = events st"
  "events (onQueryStart e st) = events st"
  "events (orKeep st (onQueryComplete env now e st)) = events st"
  "events (orKeep st (onToolCalled env now e st)) = events st"
  "events (orKeep st (onToolFinished e st)) = events st"
  "events (orKeep st (onAgentEvidence env now e st)) = events st"
  "events (onAgentRecommendation e st) = events st"
  "events (onSpanEnded e st) = events st"
  "events (onAgentCompleted e st) = events st"
  "events (onHandover env now e st) = events st"
  "events (onCoordinatorScoring e st) = events st"
  "events (onCoordinatorPlan e st) = events st"
  "events (onRecoveryOption e st) = events st"
  "events (onOrchestrator e st) = events st"
  "events (onWorkflowStatus e st) = events st"
  "events (onProgressUpdate e st) = events st"
  "events (onRunStarted e st) = events st"
  "events (onRunCompleted e st) = events st"
  "events (onRunFailed e st) = events st"
  by (simp_all add: on_defs Let_def split: option.split source_entry.split)

lemma on_isConnected:
  "isConnected (onAgentActivated e st) = isConnected st"
  "isConnected (onAgentExcluded e st) = isConnected st"
  "isConnected (onSpanStarted e st) = isConnected st"
  "isConnected (onAgentObjective e st) = isConnected st"
  "isConnected (onAgentProgress e st) = isConnected st"
  "isConnected (onExecutorInvoked e st) = isConnected st"
  "isConnected (onExecutorCompleted e st) = isConnected st"
  "isConnected (onQueryStart e st) = isConnected st"
  "isConnected (orKeep st (onQueryComplete env now e st)) = isConnected st"
  "isConnected (orKeep st (onToolCalled env now e st)) = isConnected st"
  "isConnected (orKeep st (onToolFinished e st)) = isConnected st"
  "isConnected (orKeep st (onAgentEvidence env now e st)) = isConnected st"
  "isConnected (onAgentRecommendation e st) = isConnected st"
  "isConnected (onSpanEnded e st) = isConnected st"
  "isConnected (onAgentCompleted e st) = isConnected st"
  "isConnected (onHandover env now e st) = isConnected st"
  "isConnected (onCoordinatorScoring e st) = isConnected st"
  "isConnected (onCoordinatorPlan e st) = isConnected st"
  "isConnected (onRecoveryOption e st) = isConnected st"
  "isConnected (onOrchestrator e st) = isConnected st"
  "isConnected (onWorkflowStatus e st) = isConnected st"
  "isConnected (onProgressUpdate e st) = isConnected st"
  "isConnected (onRunStarted e st) = isConnected st"
  "isConnected (onRunCompleted e st) = isConnected st"
  "isConnected (onRunFailed e st) = isConnected st"
  by (simp_all add: on_defs Let_def split: option.split source_entry.split)

lemma on_lastMeaningful:
  "lastMeaningfulEventAt (onAgentActivated e st) = lastMeaningfulEventAt st"
  "lastMeaningfulEventAt (onAgentExcluded e st) = lastMeaningfulEventAt st"
  "lastMeaningfulEventAt (onSpanStarted e st) = lastMeaningfulEventAt st"
  "lastMeaningfulEventAt (onAgentObjective e st) = lastMeaningfulEventAt st"
  "lastMeaningfulEventAt (onAgentProgress e st) = lastMeaningfulEventAt st"
  "lastMeaningfulEventAt (onExecutorInvoked e st) = lastMeaningfulEventAt st"
  "lastMeaningfulEventAt (onExecutorCompleted e st) = lastMeaningfulEventAt st"
  "lastMeaningfulEventAt (onQueryStart e st) = lastMeaningfulEventAt st"
  "lastMeaningfulEventAt (orKeep st (onQueryComplete env now e st)) = lastMeaningfulEventAt st"
  "lastMeaningfulEventAt (orKeep st (onToolCalled env now e st)) = lastMeaningfulEventAt st"
  "lastMeaningfulEventAt (orKeep st (onToolFinished e st)) = lastMeaningfulEventAt st"
  "lastMeaningfulEventAt (orKeep st (onAgentEvidence env now e st)) = lastMeaningfulEventAt st"
  "lastMeaningfulEventAt (onAgentRecommendation e st) = lastMeaningfulEventAt st"
  "lastMeaningfulEventAt (onSpanEnded e st) = lastMeaningfulEventAt st"
  "lastMeaningfulEventAt (onAgentCompleted e st) = lastMeaningfulEventAt st"
  "lastMeaningfulEventAt (onHandover env now e st) = lastMeaningfulEventAt st"
  "lastMeaningfulEventAt (onCoordinatorScoring e st) = lastMeaningfulEventAt st"
  "lastMeaningfulEventAt (onCoordinatorPlan e st) = lastMeaningfulEventAt st"
  "lastMeaningfulEventAt (onRecoveryOption e st) = lastMeaningfulEventAt st"
  "lastMeaningfulEventAt (onOrchestrator e st) = lastMeaningfulEventAt st"
  "lastMeaningfulEventAt (onWorkflowStatus e st) = lastMeaningfulEventAt st"
  "lastMeaningfulEventAt (onProgressUpdate e st) = lastMeaningfulEventAt st"
  "lastMeaningfulEventAt (onRunStarted e st) = lastMeaningfulEventAt st"
  "lastMeaningfulEventAt (onRunCompleted e st) = lastMeaningfulEventAt st"
  "lastMeaningfulEventAt (onRunFailed e st) = lastMeaningfulEventAt st"
  by (simp_all add: on_defs Let_def split: option.split source_entry.split)

lemma on_isStale:
  "isStale (runProgress (onAgentActivated e st)) \<Longrightarrow> isStale (runProgress st)"
  "isStale (runProgress (onAgentExcluded e st)) \<Longrightarrow> isStale (runProgress st)"
  "isStale (runProgress (onSpanStarted e st)) \<Longrightarrow> isStale (runProgress st)"
  "isStale (runProgress (onAgentObjective e st)) \<Longrightarrow> isStale (runProgress st)"
  "isStale (runProgress (onAgentProgress e st)) \<Longrightarrow> isStale (runProgress st)"
  "isStale (runProgress (onExecutorInvoked e st)) \<Longrightarrow> isStale (runProgress st)"
  "isStale (runProgress (onExecutorCompleted e st)) \<Longrightarrow> isStale (runProgress st)"
  "isStale (runProgress (onQueryStart e st)) \<Longrightarrow> isStale (runProgress st)"
  "isStale (runProgress (orKeep st (onQueryComplete env now e st))) \<Longrightarrow> isStale (runProgress st)"
  "isStale (runProgress (orKeep st (onToolCalled env now e st))) \<Longrightarrow> isStale (runProgress st)"
  "isStale (runProgress (orKeep st (onToolFinished e st))) \<Longrightarrow> isStale (runProgress st)"
  "isStale (runProgress (orKeep st (onAgentEvidence env now e st))) \<Longrightarrow> isStale (runProgress st)"
  "isStale (runProgress (onAgentRecommendation e st)) \<Longrightarrow> isStale (runProgress st)"
  "isStale (runProgress (onSpanEnded e st)) \<Longrightarrow> isStale (runProgress st)"
  "isStale (runProgress (onAgentCompleted e st)) \<Longrightarrow> isStale (runProgress st)"
  "isStale (runProgress (onHandover env now e st)) \<Longrightarrow> isStale (runProgress st)"
  "isStale (runProgress (onCoordinatorScoring e st)) \<Longrightarrow> isStale (runProgress st)"
  "isStale (runProgress (onCoordinatorPlan e st)) \<Longrightarrow> isStale (runProgress st)"
  "isStale (runProgress (onRecoveryOption e st)) \<Longrightarrow> isStale (runProgress st)"
  "isStale (runProgress (onOrchestrator e st)) \<Longrightarrow> isStale (runProgress st)"
  "isStale (runProgress (onWorkflowStatus e st)) \<Longrightarrow> isStale (runProgress st)"
  "isStale (runProgress (onProgressUpdate e st)) \<Longrightarrow> isStale (runProgress st)"
  "isStale (runProgress (onRunStarted e st)) \<Longrightarrow> isStale (runProgress st)"
  "isStale (runProgress (onRunCompleted e st)) \<Longrightarrow> isStale (runProgress st)"
  "isStale (runProgress (onRunFailed e st)) \<Longrightarrow> isStale (runProgress st)"
  by (simp_all add: on_defs Let_def split: option.splits source_entry.splits if_splits)

lemma process_events: "events (orKeep st (processAgentEvent env now e st)) = events st"
  by (simp add: processAgentEvent_def on_events Let_def)

lemma process_isConnected:
  "isConnected (orKeep st (processAgentEvent env now e st)) = isConnected st"
  by (simp add: processAgentEvent_def on_isConnected Let_def)

lemma process_lastMeaningful:
  "lastMeaningfulEventAt (orKeep st (processAgentEvent env now e st))
     = lastMeaningfulEventAt st"
  by (simp add: processAgentEvent_def on_lastMeaningful Let_def)

lemma process_isStale:
  "isStale (runProgress (orKeep st (processAgentEvent env now e st)))
     \<Longrightarrow> isStale (runProgress st)"
  by (auto simp add: processAgentEvent_def Let_def split: if_splits dest: on_isStale)

lemma process_unhandled:
  "kind e \<notin> set handledKinds \<Longrightarrow> processAgentEvent env now e st = Some st"
  by (simp add: processAgentEvent_def handledKinds_def Let_def)

text \<open>The state \<open>addEvent\<close> leaves, returned or thrown.\<close>

lemma after_addEvent:
  "after (addEvent env now e st) =
     orKeep (updateRunFromEvent e (admit env now e st))
       (processAgentEvent env now e (updateRunFromEvent e (admit env now e st)))"
  by (simp add: addEvent_def Let_def split: option.split)

lemma update_frame:
  "events (updateRunFromEvent e st) = events st"
  "isConnected (updateRunFromEvent e st) = isConnected st"
  "lastMeaningfulEventAt (updateRunFromEvent e st) = lastMeaningfulEventAt st"
  "runProgress (updateRunFromEvent e st) = runProgress st"
  "agents (updateRunFromEvent e st) = agents st"
  "agentsProtoKeys (updateRunFromEvent e st) = agentsProtoKeys st"
  "dataSources (updateRunFromEvent e st) = dataSources st"
  "recoveryPlan (updateRunFromEvent e st) = recoveryPlan st"
  "recoveryOptions (updateRunFromEvent e st) = recoveryOptions st"
  "activeAgentIds (updateRunFromEvent e st) = activeAgentIds st"
  "completedAgentIds (updateRunFromEvent e st) = completedAgentIds st"
  "failedAgentIds (updateRunFromEvent e st) = failedAgentIds st"
  by (simp_all add: updateRunFromEvent_def Let_def split: option.split)

lemma admit_frame:
  "isConnected (admit env now e st) = isConnected st"
  "agents (admit env now e st) = agents st"
  "agentsProtoKeys (admit env now e st) = agentsProtoKeys st"
  "dataSources (admit env now e st) = dataSources st"
  "recoveryPlan (admit env now e st) = recoveryPlan st"
  "recoveryOptions (admit env now e st) = recoveryOptions st"
  "activeAgentIds (admit env now e st) = activeAgentIds st"
  "completedAgentIds (admit env now e st) = completedAgentIds st"
  "failedAgentIds (admit env now e st) = failedAgentIds st"
  "isStale (runProgress (admit env now e st)) = isStale (runProgress st)"
  "events (admit env now e st) = sliceLast MAX_STORED_EVENTS (events st @ [e])"
  by (simp_all add: admit_def Let_def)

text \<open>Lookups read the two registries and the inherited keys only.\<close>

lemma lookup_frame:
  "agentAt (updateRunFromEvent e st) = agentAt st"
  "agentAt (admit env now e st) = agentAt st"
  "sourceAt (updateRunFromEvent e st) = sourceAt st"
  "sourceAt (admit env now e st) = sourceAt st"
  "knownAgent (updateRunFromEvent e st) = knownAgent st"
  "knownAgent (admit env now e st) = knownAgent st"
  by (simp_all add: fun_eq_iff agentAt_def sourceAt_def knownAgent_def inheritedAgentKeys_def
      update_frame admit_frame)

lemma sliceLast_length: "length (sliceLast n xs) \<le> n"
  by (simp add: sliceLast_def)

lemma sliceLast_short: "length xs \<le> n \<Longrightarrow> sliceLast n xs = xs"
  by (simp add: sliceLast_def)

lemma sliceLast_full: "length xs = n \<Longrightarrow> 0 < n \<Longrightarrow> sliceLast n (xs @ [x]) = tl xs @ [x]"
  by (cases xs) (simp_all add: sliceLast_def)

lemma sliceLast_last: "0 < n \<Longrightarrow> last (sliceLast n (xs @ [x])) = x"
  by (simp add: sliceLast_def)

section \<open>The event log is bounded\<close>

text \<open>
  Claim C9. Whatever the state and the envelope, the event list after \<open>addEvent\<close> holds
  at most 1500 envelopes: it is the last 1500 of the old list followed by the new envelope.
  Below the capacity nothing is dropped; at the capacity the oldest envelope is the one
  dropped.
\<close>

theorem addEvent_bounded_buffer:
  "length (events (after (addEvent env now event st))) \<le> 1500
   \<and> events (after (addEvent env now event st)) = sliceLast 1500 (events st @ [event])
   \<and> (length (events st) < 1500 \<longrightarrow>
        events (after (addEvent env now event st)) = events st @ [event])
   \<and> (length (events st) = 1500 \<longrightarrow>
        events (after (addEvent env now event st)) = tl (events st) @ [event])"
proof -
  have ev: "events (after (addEvent env now event st)) = sliceLast 1500 (events st @ [event])"
    by (simp add: after_addEvent process_events update_frame admit_frame MAX_STORED_EVENTS_def)
  have "length (sliceLast 1500 (events st @ [event])) \<le> 1500"
    by (rule sliceLast_length)
  moreover have "length (events st) < 1500 \<longrightarrow>
      sliceLast 1500 (events st @ [event]) = events st @ [event]"
    by (simp add: sliceLast_short)
  moreover have "length (events st) = 1500 \<longrightarrow>
      sliceLast 1500 (events st @ [event]) = tl (events st) @ [event]"
    by (simp add: sliceLast_full)
  ultimately show ?thesis using ev by simp
qed

text \<open>The theorem at a full log and at an empty one.\<close>

theorem addEvent_bounded_buffer_witness:
  "length (events (after (addEvent demoEnv 0 (envelope ''agent.activated'' []) fullStore))) \<le> 1500
   \<and> events (after (addEvent demoEnv 0 (envelope ''agent.activated'' []) fullStore))
       = replicate 1499 (envelope ''note'' []) @ [envelope ''agent.activated'' []]
   \<and> events (after (addEvent demoEnv 0 (envelope ''note'' []) initialStore)) = [envelope ''note'' []]"
proof -
  have full: "length (events fullStore) = 1500"
    by (simp add: fullStore_def)
  have tl: "tl (events fullStore) = replicate 1499 (envelope ''note'' [])"
    by (simp add: fullStore_def tl_replicate)
  have emp: "length (events initialStore) < 1500" and nil: "events initialStore = []"
    by (simp_all add: initialStore_def)
  note a = addEvent_bounded_buffer [of demoEnv 0 "envelope ''agent.activated'' []" fullStore]
  note b = addEvent_bounded_buffer [of demoEnv 0 "envelope ''note'' []" initialStore]
  have 1: "length (events (after (addEvent demoEnv 0 (envelope ''agent.activated'' []) fullStore))) \<le> 1500"
    using a by blast
  have 2: "events (after (addEvent demoEnv 0 (envelope ''agent.activated'' []) fullStore))
       = tl (events fullStore) @ [envelope ''agent.activated'' []]"
    using a full by blast
  have 3: "events (after (addEvent demoEnv 0 (envelope ''note'' []) initialStore))
       = events initialStore @ [envelope ''note'' []]"
    using b emp by blast
  show ?thesis
    using 1 2 3 by (simp only: tl nil append_Nil simp_thms)
qed

section \<open>Envelopes of an unknown kind\<close>

lemma handled_recognized: "set handledKinds \<subseteq> set EventKinds"
  by (auto simp add: handledKinds_def EventKinds_def)

text \<open>
  Claim C3, as stated, fails: an envelope whose kind is none of \<open>EventKinds\<close> does change
  the run progress. \<open>addEvent\<close> records the kind of every envelope it admits in
  \<open>lastEventKind\<close>, before the switch of \<open>processAgentEvent\<close> is reached.
\<close>

theorem unknown_kind_counterexample:
  "kind (envelope ''custom.note'' []) \<notin> set EventKinds
   \<and> runProgress (after (addEvent demoEnv 1704067200000 (envelope ''custom.note'' []) initialStore))
       \<noteq> runProgress initialStore"
proof -
  have k: "kind (envelope ''custom.note'' []) \<notin> set EventKinds"
    by (simp add: envelope_def EventKinds_def kind_defs)
  then have "kind (envelope ''custom.note'' []) \<notin> set handledKinds"
    using handled_recognized by blast
  then have "lastEventKind (runProgress
      (after (addEvent demoEnv 1704067200000 (envelope ''custom.note'' []) initialStore)))
      = Some ''custom.note''"
    by (simp add: after_addEvent process_unhandled update_frame)
       (simp add: admit_def Let_def envelope_def)
  moreover have "lastEventKind (runProgress initialStore) = None"
    by (simp add: initialStore_def createDefaultRunProgress_def)
  ultimately show ?thesis using k by auto
qed

text \<open>
  Claim C3, amended. An envelope whose kind is none of \<open>EventKinds\<close> is appended to the
  event log (as its last element), and the agents, the data sources, the recovery plan and
  the recovery options are the same before and after. The run progress changes only by the
  bookkeeping \<open>addEvent\<close> does for every envelope: the floor on \<open>overallPct\<close>, a
  \<open>currentStep\<close> of the payload, \<open>lastEventKind\<close>, \<open>lastUpdateAt\<close>, the event rate and
  \<open>isLive\<close>.
\<close>

theorem unknown_kind_frame:
  assumes "kind event \<notin> set EventKinds"
  shows "events (after (addEvent env now event st)) = sliceLast 1500 (events st @ [event])
    \<and> last (events (after (addEvent env now event st))) = event
    \<and> agents (after (addEvent env now event st)) = agents st
    \<and> dataSources (after (addEvent env now event st)) = dataSources st
    \<and> recoveryPlan (after (addEvent env now event st)) = recoveryPlan st
    \<and> recoveryOptions (after (addEvent env now event st)) = recoveryOptions st
    \<and> runProgress (after (addEvent env now event st)) =
        (runProgress st)
          \<lparr> overallPct := max (overallPct (runProgress st))
               (payloadNumber (payloadOf event) ''runProgressPct'' (overallPct (runProgress st))),
            rp_currentStep :=
              payloadString (payloadOf event) ''currentStep'' (rp_currentStep (runProgress st)),
            lastEventKind := Some (kind event),
            lastUpdateAt := Some (orS (ts event) (to_iso env now)),
            rp_eventRatePerMin := eventRatePerMin (after (addEvent env now event st)),
            isLive := isConnected st \<rparr>"
proof -
  have "kind event \<notin> set handledKinds"
    using assms handled_recognized by blast
  then have eq: "after (addEvent env now event st) = updateRunFromEvent event (admit env now event st)"
    by (simp add: after_addEvent process_unhandled)
  have nk: "kind event \<noteq> RUN_COMPLETED" "kind event \<noteq> RUN_FAILED" "kind event \<noteq> RUN_STARTED"
    using assms by (auto simp add: EventKinds_def)
  have rp: "runProgress (admit env now event st) =
        (runProgress st)
          \<lparr> overallPct := max (overallPct (runProgress st))
               (payloadNumber (payloadOf event) ''runProgressPct'' (overallPct (runProgress st))),
            rp_currentStep :=
              payloadString (payloadOf event) ''currentStep'' (rp_currentStep (runProgress st)),
            lastEventKind := Some (kind event),
            lastUpdateAt := Some (orS (ts event) (to_iso env now)),
            rp_eventRatePerMin := eventRatePerMin (admit env now event st),
            isLive := isConnected st \<rparr>"
    using nk by (simp add: admit_def Let_def)
  have rate: "eventRatePerMin (updateRunFromEvent event (admit env now event st))
      = eventRatePerMin (admit env now event st)"
    by (simp add: updateRunFromEvent_def Let_def split: option.split)
  show ?thesis
    unfolding eq
    by (simp add: update_frame admit_frame rp rate MAX_STORED_EVENTS_def sliceLast_last)
qed

text \<open>The amended claim at an envelope of kind \<open>custom.note\<close>.\<close>

theorem unknown_kind_frame_witness:
  "agents (after (addEvent demoEnv 1704067200000 (envelope ''custom.note'' []) initialStore))
     = agents initialStore
   \<and> dataSources (after (addEvent demoEnv 1704067200000 (envelope ''custom.note'' []) initialStore))
     = dataSources initialStore
   \<and> recoveryPlan (after (addEvent demoEnv 1704067200000 (envelope ''custom.note'' []) initialStore))
     = recoveryPlan initialStore
   \<and> last (events (after (addEvent demoEnv 1704067200000 (envelope ''custom.note'' []) initialStore)))
     = envelope ''custom.note'' []"
proof -
  have k: "kind (envelope ''custom.note'' []) \<notin> set EventKinds"
    by (simp add: envelope_def EventKinds_def kind_defs)
  show ?thesis
    using unknown_kind_frame [OF k, of demoEnv 1704067200000 initialStore] by blast
qed

section \<open>Heartbeats stop at the connector\<close>

text \<open>
  Claim C6. For an envelope of kind \<open>heartbeat\<close> the handler of the connector calls
  \<open>noteHeartbeat\<close> and returns: the store changes in \<open>lastHeartbeatAt\<close> and in the
  \<open>lastHeartbeatAt\<close> of the run progress and nowhere else (not at all when the hook is
  unmounted). The event log, \<open>lastMeaningfulEventAt\<close>, the agents, the data sources and
  the recovery plan are unchanged, and so is the rest of the run progress.
\<close>

theorem heartbeat_intercepted:
  assumes "kind event = HEARTBEAT"
  shows "snd (handleSSEEvent env now (Some event) lid (c, st)) =
      (if mounted c
       then st\<lparr> lastHeartbeatAt := Some (orS (ts event) (to_iso env now)),
                runProgress := (runProgress st)
                  \<lparr> rp_lastHeartbeatAt := Some (orS (ts event) (to_iso env now)) \<rparr> \<rparr>
       else st)
    \<and> events (snd (handleSSEEvent env now (Some event) lid (c, st))) = events st
    \<and> lastMeaningfulEventAt (snd (handleSSEEvent env now (Some event) lid (c, st)))
        = lastMeaningfulEventAt st
    \<and> agents (snd (handleSSEEvent env now (Some event) lid (c, st))) = agents st
    \<and> dataSources (snd (handleSSEEvent env now (Some event) lid (c, st))) = dataSources st
    \<and> recoveryPlan (snd (handleSSEEvent env now (Some event) lid (c, st))) = recoveryPlan st
    \<and> recoveryOptions (snd (handleSSEEvent env now (Some event) lid (c, st)))
        = recoveryOptions st
    \<and> (runProgress (snd (handleSSEEvent env now (Some event) lid (c, st))))
          \<lparr> rp_lastHeartbeatAt := rp_lastHeartbeatAt (runProgress st) \<rparr> = runProgress st"
  using assms by (simp add: handleSSEEvent_def Let_def noteHeartbeat_def)

text \<open>The theorem at a heartbeat received by a mounted connector on the initial store.\<close>

theorem heartbeat_intercepted_witness:
  "snd (handleSSEEvent demoEnv 1704067260000 (Some (envelope ''heartbeat'' [])) []
         (liveConnector, initialStore))
     = initialStore\<lparr> lastHeartbeatAt := Some ''2024-01-01T00:00:00.000Z'',
         runProgress := (runProgress initialStore)
           \<lparr> rp_lastHeartbeatAt := Some ''2024-01-01T00:00:00.000Z'' \<rparr> \<rparr>
   \<and> events (snd (handleSSEEvent demoEnv 1704067260000 (Some (envelope ''heartbeat'' [])) []
         (liveConnector, initialStore))) = []"
proof -
  have k: "kind (envelope ''heartbeat'' []) = HEARTBEAT"
    by (simp add: envelope_def HEARTBEAT_def)
  have m: "mounted liveConnector"
    by (simp add: liveConnector_def)
  have t: "orS (ts (envelope ''heartbeat'' [])) (to_iso demoEnv 1704067260000)
      = ''2024-01-01T00:00:00.000Z''"
    by (simp add: envelope_def orS_def)
  have e: "events initialStore = []"
    by (simp add: initialStore_def)
  show ?thesis
    using heartbeat_intercepted [OF k, of demoEnv 1704067260000 "[]" liveConnector initialStore]
    by (simp add: m t e)
qed

section \<open>Staleness\<close>

lemma orS_Nil: "orS a [] = a"
  by (simp add: orS_def)

lemma addEvent_isConnected: "isConnected (after (addEvent env now e st)) = isConnected st"
  by (simp add: after_addEvent process_isConnected update_frame admit_frame)

lemma addEvent_lastMeaningful:
  "lastMeaningfulEventAt (after (addEvent env now e st)) =
     (if kind e \<noteq> HEARTBEAT then Some (orS (ts e) (to_iso env now))
      else lastMeaningfulEventAt st)"
  by (simp add: after_addEvent process_lastMeaningful update_frame)
     (simp add: admit_def Let_def isMeaningfulEvent_def)

lemma addEvent_isStale:
  "isStale (runProgress (after (addEvent env now e st))) \<Longrightarrow> isStale (runProgress st)"
  unfolding after_addEvent
  by (drule process_isStale) (simp add: update_frame admit_frame)

lemma evaluateStaleness_isStale:
  "isStale (runProgress (evaluateStaleness env clock nowMs st)) =
     (isConnected st \<and>
      (\<exists>l. lastMeaningfulMs env st = Some l \<and> 0 < l \<and> 20000 < nullish nowMs clock - l))"
  by (cases "lastMeaningfulMs env st") (simp_all add: evaluateStaleness_def Let_def)

lemma evaluateStaleness_isConnected:
  "isConnected (evaluateStaleness env clock nowMs st) = isConnected st"
  by (simp add: evaluateStaleness_def Let_def)

lemma connectedStore_facts:
  "isConnected connectedStore" "lastMeaningfulEventAt connectedStore = None"
  by (simp_all add: connectedStore_def setConnected_def initialStore_def)

lemma note_kind: "kind (envelope ''custom.note'' kvs) \<noteq> HEARTBEAT"
  by (simp add: envelope_def HEARTBEAT_def)

lemma envelope_ts: "ts (envelope k kvs) = ''2024-01-01T00:00:00.000Z''"
  by (simp add: envelope_def)

lemma demo_parse:
  "date_parse demoEnv ''2024-01-01T00:00:00.000Z'' = Some 1704067200000"
  by (simp add: demoEnv_def)

lemma noted_lastMeaningfulMs:
  "lastMeaningfulMs demoEnv (after (addEvent demoEnv now (envelope ''custom.note'' []) st))
     = Some 1704067200000"
  by (simp add: lastMeaningfulMs_def addEvent_lastMeaningful note_kind envelope_ts orS_def
      demo_parse)

lemma staleStore_facts:
  "isStale (runProgress staleStore)" "isConnected staleStore"
  unfolding staleStore_def
  by (simp_all add: evaluateStaleness_isStale evaluateStaleness_isConnected
      noted_lastMeaningfulMs addEvent_isConnected connectedStore_facts)

text \<open>
  Claim C5, as stated, fails twice. With the connection up and no meaningful event recorded
  yet, \<open>lastMeaningfulMs\<close> is 0 and \<open>now - 0\<close> exceeds 20 seconds, yet the poll leaves
  \<open>isStale\<close> false: the source asks for \<open>lastMeaningfulMs > 0\<close> as well. And from a stale
  state, admitting a meaningful envelope does not make the next poll clear the flag when the
  timestamp the envelope carries is more than 20 seconds old at the poll: the store keeps
  the envelope's own \<open>ts\<close>, not its time of arrival.
\<close>

theorem staleness_counterexample:
  "isConnected connectedStore
   \<and> lastMeaningfulMs demoEnv connectedStore = Some 0
   \<and> (1704067260000 :: number) - 0 > 20000
   \<and> \<not> isStale (runProgress (evaluateStaleness demoEnv 0 (Some 1704067260000) connectedStore))
   \<and> isStale (runProgress staleStore)
   \<and> kind (envelope ''custom.note'' []) \<noteq> HEARTBEAT
   \<and> isStale (runProgress
        (evaluateStaleness demoEnv 0 (Some 1704067265000)
           (after (addEvent demoEnv 1704067260000 (envelope ''custom.note'' []) staleStore))))"
proof -
  have ms0: "lastMeaningfulMs demoEnv connectedStore = Some 0"
    by (simp add: lastMeaningfulMs_def connectedStore_facts)
  have a: "\<not> isStale (runProgress (evaluateStaleness demoEnv 0 (Some 1704067260000) connectedStore))"
    by (simp add: evaluateStaleness_isStale ms0)
  have c: "isStale (runProgress
        (evaluateStaleness demoEnv 0 (Some 1704067265000)
           (after (addEvent demoEnv 1704067260000 (envelope ''custom.note'' []) staleStore))))"
    by (simp add: evaluateStaleness_isStale noted_lastMeaningfulMs addEvent_isConnected
        staleStore_facts)
  show ?thesis
    using ms0 a c note_kind connectedStore_facts(1) staleStore_facts(1) by simp
qed

text \<open>
  Claim C5, amended. A staleness poll at time \<open>now\<close> sets \<open>isStale\<close> to true exactly when
  the connection is up, the last meaningful-event timestamp parses to a time greater than 0,
  and \<open>now\<close> minus that time exceeds 20000 ms. After a meaningful (non-heartbeat) envelope
  is admitted, the next poll clears \<open>isStale\<close> provided the timestamp recorded for the
  envelope (its \<open>ts\<close>, or the clock when it has none) is at most 20000 ms before the poll.
\<close>

theorem staleness_rule:
  "isStale (runProgress (evaluateStaleness env clock nowMs st)) =
     (isConnected st \<and>
      (\<exists>l. lastMeaningfulMs env st = Some l \<and> 0 < l \<and> 20000 < nullish nowMs clock - l))
   \<and> (kind event \<noteq> HEARTBEAT
        \<and> (\<forall>t. date_parse env (orS (ts event) (to_iso env now0)) = Some t
                 \<longrightarrow> nullish nowMs clock - t \<le> 20000)
      \<longrightarrow> \<not> isStale (runProgress
              (evaluateStaleness env clock nowMs (after (addEvent env now0 event st)))))"
proof -
  have "\<not> isStale (runProgress
              (evaluateStaleness env clock nowMs (after (addEvent env now0 event st))))"
    if k: "kind event \<noteq> HEARTBEAT"
    and r: "\<forall>t. date_parse env (orS (ts event) (to_iso env now0)) = Some t
                 \<longrightarrow> nullish nowMs clock - t \<le> 20000"
  proof -
    have "lastMeaningfulMs env (after (addEvent env now0 event st)) =
        (if orS (ts event) (to_iso env now0) \<noteq> []
         then date_parse env (orS (ts event) (to_iso env now0)) else Some 0)"
      using k by (simp add: lastMeaningfulMs_def addEvent_lastMeaningful orS_Nil)
    then show ?thesis
      using r by (auto simp add: evaluateStaleness_isStale split: if_splits)
  qed
  then show ?thesis
    by (simp add: evaluateStaleness_isStale)
qed

text \<open>
  The amended claim at a poll 60 seconds after the last envelope (stale) and at a poll
  10 seconds after an envelope admitted in the stale state (cleared).
\<close>

theorem staleness_rule_witness:
  "isStale (runProgress (evaluateStaleness demoEnv 0 (Some 1704067260000)
      (after (addEvent demoEnv 1704067200000 (envelope ''custom.note'' []) connectedStore))))
   \<and> \<not> isStale (runProgress (evaluateStaleness demoEnv 0 (Some 1704067210000)
      (after (addEvent demoEnv 1704067200000 (envelope ''custom.note'' []) staleStore))))"
proof -
  note ms1 = noted_lastMeaningfulMs [of 1704067200000 connectedStore]
  have c1: "isConnected (after (addEvent demoEnv 1704067200000 (envelope ''custom.note'' []) connectedStore))"
    by (simp add: addEvent_isConnected connectedStore_facts)
  have h: "\<forall>t. date_parse demoEnv
        (orS (ts (envelope ''custom.note'' [])) (to_iso demoEnv 1704067200000)) = Some t
      \<longrightarrow> nullish (Some 1704067210000) 0 - t \<le> 20000"
    by (simp add: envelope_ts orS_def demo_parse)
  note r1 = staleness_rule [of demoEnv 0 "Some 1704067260000"
      "after (addEvent demoEnv 1704067200000 (envelope ''custom.note'' []) connectedStore)"
      "envelope ''custom.note'' []" 0, THEN conjunct1]
  note r2 = staleness_rule [of demoEnv 0 "Some 1704067210000" staleStore
      "envelope ''custom.note'' []" 1704067200000, THEN conjunct2]
  have 1: "isStale (runProgress (evaluateStaleness demoEnv 0 (Some 1704067260000)
      (after (addEvent demoEnv 1704067200000 (envelope ''custom.note'' []) connectedStore))))"
    by (simp add: r1 ms1 c1)
  have 2: "\<not> isStale (runProgress (evaluateStaleness demoEnv 0 (Some 1704067210000)
      (after (addEvent demoEnv 1704067200000 (envelope ''custom.note'' []) staleStore))))"
    using r2 note_kind h by blast
  show ?thesis using 1 2 by simp
qed

section \<open>Stale only while connected\<close>

lemma process_run_completed:
  "kind e = RUN_COMPLETED \<Longrightarrow> processAgentEvent env now e st = Some (onRunCompleted e st)"
  by (simp add: processAgentEvent_def Let_def kind_defs)

lemma process_run_failed:
  "kind e = RUN_FAILED \<Longrightarrow> processAgentEvent env now e st = Some (onRunFailed e st)"
  by (simp add: processAgentEvent_def Let_def kind_defs)

lemma terminal_not_stale:
  "kind e = RUN_COMPLETED \<or> kind e = RUN_FAILED \<Longrightarrow>
     \<not> isStale (runProgress (after (addEvent env now e st)))"
  by (auto simp add: after_addEvent process_run_completed process_run_failed
        onRunCompleted_def onRunFailed_def)

lemma perform_isStale:
  assumes "isStale (runProgress (perform env a st))"
  shows "isConnected (perform env a st)
    \<or> isStale (runProgress st) \<and> isConnected (perform env a st) = isConnected st"
proof (cases a)
  case (AddEvent now e)
  then show ?thesis
    using assms addEvent_isStale [of env now e st] by (auto simp add: addEvent_isConnected)
next
  case (ProcessAgentEvent now e)
  then show ?thesis
    using assms process_isStale [of st env now e] by (auto simp add: process_isConnected)
next
  case (EvaluateStaleness now n)
  then show ?thesis
    using assms by (auto simp add: evaluateStaleness_isStale evaluateStaleness_isConnected)
next
  case (UpdateRunFromEvent e)
  then show ?thesis using assms by (simp add: update_frame)
qed (use assms in \<open>auto simp add: setCurrentRunId_def setCurrentRun_def clearEvents_def
       setConnected_def noteHeartbeat_def initializeAgents_def setSelectedAgent_def
       setSidebarCollapsed_def setBottomDrawerTab_def setBottomDrawerOpen_def
       createDefaultRunProgress_def Let_def split: if_splits\<close>)

lemma reachable_stale_connected:
  "reachable env st \<Longrightarrow> isStale (runProgress st) \<Longrightarrow> isConnected st"
proof (induction rule: reachable.induct)
  case reach_init
  then show ?case by (simp add: initialStore_def createDefaultRunProgress_def)
next
  case (reach_step st a)
  then show ?case using perform_isStale [of env a st] by auto
qed

lemma disconnected_stays_fresh:
  assumes "\<not> isStale (runProgress st)" "\<not> isConnected st"
  shows "\<not> isStale (runProgress (perform env a st))"
proof (cases a)
  case (AddEvent now e)
  then show ?thesis using assms addEvent_isStale [of env now e st] by auto
next
  case (ProcessAgentEvent now e)
  then show ?thesis using assms process_isStale [of st env now e] by auto
next
  case (EvaluateStaleness now n)
  then show ?thesis using assms by (simp add: evaluateStaleness_isStale)
next
  case (UpdateRunFromEvent e)
  then show ?thesis using assms by (simp add: update_frame)
qed (use assms in \<open>auto simp add: setCurrentRunId_def setCurrentRun_def clearEvents_def
       setConnected_def noteHeartbeat_def initializeAgents_def setSelectedAgent_def
       setSidebarCollapsed_def setBottomDrawerTab_def setBottomDrawerOpen_def
       createDefaultRunProgress_def Let_def split: if_splits\<close>)

text \<open>
  Claim C10. In every state that a sequence of store actions reaches from the initial
  store, \<open>isStale\<close> implies \<open>isConnected\<close>. Disconnecting, clearing the events and
  admitting a \<open>run_completed\<close> or \<open>run_failed\<close> envelope each leave \<open>isStale\<close> false, and
  no action performed while disconnected sets it.
\<close>

theorem stale_only_while_connected:
  assumes "reachable env st"
  shows "(isStale (runProgress st) \<longrightarrow> isConnected st)
    \<and> \<not> isStale (runProgress (setConnected False st))
    \<and> \<not> isStale (runProgress (clearEvents st))
    \<and> (\<forall>now event. kind event = RUN_COMPLETED \<or> kind event = RUN_FAILED \<longrightarrow>
          \<not> isStale (runProgress (after (addEvent env now event st))))
    \<and> (\<forall>a. \<not> isConnected st \<longrightarrow> \<not> isStale (runProgress (perform env a st)))"
proof -
  have inv: "isStale (runProgress st) \<longrightarrow> isConnected st"
    using assms reachable_stale_connected by blast
  have d: "\<not> isStale (runProgress (setConnected False st))"
    by (simp add: setConnected_def)
  have c: "\<not> isStale (runProgress (clearEvents st))"
    by (simp add: clearEvents_def createDefaultRunProgress_def)
  have t: "\<forall>now event. kind event = RUN_COMPLETED \<or> kind event = RUN_FAILED \<longrightarrow>
          \<not> isStale (runProgress (after (addEvent env now event st)))"
    using terminal_not_stale by blast
  have n: "\<forall>a. \<not> isConnected st \<longrightarrow> \<not> isStale (runProgress (perform env a st))"
    using inv disconnected_stays_fresh by blast
  show ?thesis using inv d c t n by blast
qed

text \<open>
  The theorem at a reachable state that is stale: connect, admit an envelope, poll a minute
  later.
\<close>

theorem stale_only_while_connected_witness:
  "reachable demoEnv staleStore \<and> isStale (runProgress staleStore) \<and> isConnected staleStore
   \<and> \<not> isStale (runProgress (setConnected False staleStore))
   \<and> \<not> isStale (runProgress
          (after (addEvent demoEnv 1704067260000 (envelope ''run_completed'' []) staleStore)))"
proof -
  have s: "staleStore =
      perform demoEnv (EvaluateStaleness 0 (Some 1704067260000))
        (perform demoEnv (AddEvent 1704067200000 (envelope ''custom.note'' []))
          (perform demoEnv (SetConnected True) initialStore))"
    by (simp add: staleStore_def connectedStore_def)
  have r: "reachable demoEnv staleStore"
    unfolding s by (intro reach_step reach_init)
  note st = staleStore_facts(1)
  have k: "kind (envelope ''run_completed'' []) = RUN_COMPLETED"
    by (simp add: envelope_def RUN_COMPLETED_def)
  show ?thesis
    using stale_only_while_connected [OF r] r st k by blast
qed

section \<open>Dispatch and lookups\<close>

lemma process_dispatch:
  "kind e = AGENT_ACTIVATED \<Longrightarrow> processAgentEvent env now e st = Some (onAgentActivated e st)"
  "kind e = SPAN_STARTED \<Longrightarrow> processAgentEvent env now e st = Some (onSpanStarted e st)"
  "kind e = SPAN_ENDED \<Longrightarrow> processAgentEvent env now e st = Some (onSpanEnded e st)"
  "kind e = EXECUTOR_INVOKED \<Longrightarrow>
     processAgentEvent env now e st = Some (onExecutorInvoked e st)"
  "kind e = EXECUTOR_COMPLETED \<Longrightarrow>
     processAgentEvent env now e st = Some (onExecutorCompleted e st)"
  "kind e = DATA_SOURCE_QUERY_START \<Longrightarrow>
     processAgentEvent env now e st = Some (onQueryStart e st)"
  "kind e = DATA_SOURCE_QUERY_COMPLETE \<Longrightarrow>
     processAgentEvent env now e st = onQueryComplete env now e st"
  "kind e = PROGRESS_UPDATE \<Longrightarrow> processAgentEvent env now e st = Some (onProgressUpdate e st)"
  by (simp_all add: processAgentEvent_def Let_def kind_defs)

text \<open>\<open>addEvent\<close> through a case that cannot throw.\<close>

lemma addEvent_total:
  assumes "processAgentEvent env now e (updateRunFromEvent e (admit env now e st)) = Some s"
  shows "addEvent env now e st = Returned s"
  using assms by (simp add: addEvent_def Let_def)

lemma addEvent_dispatch:
  "kind e = AGENT_ACTIVATED \<Longrightarrow> addEvent env now e st =
     Returned (onAgentActivated e (updateRunFromEvent e (admit env now e st)))"
  "kind e = SPAN_STARTED \<Longrightarrow> addEvent env now e st =
     Returned (onSpanStarted e (updateRunFromEvent e (admit env now e st)))"
  "kind e = SPAN_ENDED \<Longrightarrow> addEvent env now e st =
     Returned (onSpanEnded e (updateRunFromEvent e (admit env now e st)))"
  "kind e = EXECUTOR_INVOKED \<Longrightarrow> addEvent env now e st =
     Returned (onExecutorInvoked e (updateRunFromEvent e (admit env now e st)))"
  "kind e = EXECUTOR_COMPLETED \<Longrightarrow> addEvent env now e st =
     Returned (onExecutorCompleted e (updateRunFromEvent e (admit env now e st)))"
  "kind e = DATA_SOURCE_QUERY_START \<Longrightarrow> addEvent env now e st =
     Returned (onQueryStart e (updateRunFromEvent e (admit env now e st)))"
  "kind e = PROGRESS_UPDATE \<Longrightarrow> addEvent env now e st =
     Returned (onProgressUpdate e (updateRunFromEvent e (admit env now e st)))"
  by (simp_all add: addEvent_def Let_def process_dispatch)

lemma own_agentAt: "agents st k = Some a \<Longrightarrow> agentAt st k = Some a"
  by (simp add: agentAt_def)

lemma absent_agentAt:
  "agents st k = None \<Longrightarrow> k \<notin> set (inheritedAgentKeys st) \<Longrightarrow> agentAt st k = None"
  by (simp add: agentAt_def)

lemma own_sourceAt: "dataSources st k = Some d \<Longrightarrow> sourceAt st k = Some d"
  by (simp add: sourceAt_def)

section \<open>Run progress is not monotonic\<close>

text \<open>The first write of \<open>addEvent\<close> never lowers \<open>overallPct\<close>.\<close>

lemma admit_overallPct_floor:
  "overallPct (runProgress st) \<le> overallPct (runProgress (admit env now event st))"
  by (simp add: admit_def Let_def)

text \<open>The second write, in the \<open>progress_update\<close> case, replaces it.\<close>

lemma progress_update_overallPct:
  assumes "kind event = PROGRESS_UPDATE" "0 \<le> reportedRunPct event"
  shows "overallPct (runProgress (after (addEvent env now event st))) = reportedRunPct event"
  using assms
  by (simp add: addEvent_dispatch onProgressUpdate_def Let_def reportedOr_def)

lemma envelope_agentId:
  "i \<noteq> [] \<Longrightarrow> agentIdOf (envelope k ((''agentId'', JStr i) # kvs)) = i"
  by (simp add: agentIdOf_def envelope_def payloadOf_def payloadString_def orS_def)

lemma envelope_kind: "kind (envelope k kvs) = k"
  by (simp add: envelope_def)

lemma envelope_payload: "payloadOf (envelope k kvs) = map_of kvs"
  by (simp add: envelope_def payloadOf_def)

lemma progressUpdate_facts:
  "kind (progressUpdate pct) = PROGRESS_UPDATE" "reportedRunPct (progressUpdate pct) = pct"
  by (simp_all add: progressUpdate_def envelope_kind envelope_payload kind_defs
      reportedRunPct_def payloadNumber_def)

text \<open>
  Claim C1 at a failing input. \<open>addEvent\<close> floors \<open>overallPct\<close> with \<open>Math.max\<close>, and
  then \<open>processAgentEvent\<close> overwrites it with the reported value whenever that value is
  not negative. Two admitted \<open>progress_update\<close> envelopes reporting 50 and then 10 leave
  \<open>overallPct\<close> at 50 and then at 10: the observed value decreases with no reset between.
\<close>

theorem overallPct_regresses:
  "overallPct (runProgress (after (addEvent env n1 (progressUpdate 50) initialStore))) = 50
   \<and> overallPct (runProgress
        (after (addEvent env n2 (progressUpdate 10)
          (after (addEvent env n1 (progressUpdate 50) initialStore))))) = 10"
  by (simp add: progress_update_overallPct progressUpdate_facts)

section \<open>Agents: unknown ids\<close>

lemma unknown_agent_dropped:
  assumes "agents st (agentIdOf event) = None"
    and "agentIdOf event \<notin> set (inheritedAgentKeys st)"
    and "kind event = SPAN_STARTED \<or> kind event = SPAN_ENDED \<or> kind event = EXECUTOR_INVOKED
      \<or> kind event = EXECUTOR_COMPLETED \<or> kind event = DATA_SOURCE_QUERY_START
      \<or> kind event = DATA_SOURCE_QUERY_COMPLETE"
  shows "agents (after (addEvent env now event st)) = agents st"
proof -
  have k: "knownAgent (updateRunFromEvent event (admit env now event st)) (agentIdOf event) = None"
    using assms(1,2) by (simp add: lookup_frame knownAgent_def absent_agentAt)
  show ?thesis
    using assms(3) k
    by (auto simp add: after_addEvent process_dispatch onSpanStarted_def onSpanEnded_def
        onExecutorInvoked_def onExecutorCompleted_def onQueryStart_def onQueryComplete_def
        Let_def update_frame admit_frame split: option.splits source_entry.splits)
qed

lemma activation_creates:
  assumes "kind event = AGENT_ACTIVATED" "agentIdOf event \<noteq> []"
    and "agents st (agentIdOf event) = None"
    and "agentIdOf event \<notin> set (inheritedAgentKeys st)"
  shows "\<exists>a. agents (after (addEvent env now event st)) (agentIdOf event) = Some a
      \<and> ag_id a = Some (agentIdOf event)
      \<and> ag_name a = Some (orS (agentNameOf event) (agentIdOf event))
      \<and> ag_status a = Some Activated \<and> included a = Some True
      \<and> category a = Some Specialist
      \<and> evidence a = Some [] \<and> toolCalls a = Some [] \<and> traceCount a = Some 1
      \<and> percentComplete a = Some 0 \<and> executionCount a = Some 0
      \<and> ag_startedAt a = Some (ts event) \<and> lastAction a = Some ''activated''"
proof -
  have k: "agentAt (updateRunFromEvent event (admit env now event st)) (agentIdOf event) = None"
    using assms(3,4) by (simp add: lookup_frame absent_agentAt)
  show ?thesis
    using assms(1,2) k
    by (simp add: addEvent_dispatch onAgentActivated_def Let_def update_frame
        admit_frame incrementAgentTrace_def)
qed

lemma activation_active:
  assumes "kind event = AGENT_ACTIVATED" "agentIdOf event \<noteq> []"
  shows "agentIdOf event \<in> set (activeAgentIds (after (addEvent env now event st)))"
  using assms
  by (simp add: addEvent_dispatch onAgentActivated_def Let_def update_frame
      admit_frame fromSet_def)


lemma plain_keys:
  "''X'' \<notin> set (inheritedAgentKeys initialStore)"
  "agentsProtoKeys rosterStore = []"
  "''A'' \<notin> set ObjectPrototypeKeys" "''B'' \<notin> set ObjectPrototypeKeys"
  by (simp_all add: inheritedAgentKeys_def ObjectPrototypeKeys_def initialStore_def
      rosterStore_def initializeAgents_def assignAgent_def agentA_def agentB_def Let_def)

text \<open>
  Claim C4, as stated, fails: a \<open>span.started\<close> envelope that names an agent the registry
  does not hold creates no agent. Its case of the switch is guarded by
  \<open>agentId && get().agents[agentId]\<close>.
\<close>

theorem unknown_agent_counterexample:
  "kind (envelope ''span.started'' [(''agentId'', JStr ''X'')]) = SPAN_STARTED
   \<and> agentIdOf (envelope ''span.started'' [(''agentId'', JStr ''X'')]) = ''X''
   \<and> agents initialStore ''X'' = None
   \<and> agents (after (addEvent demoEnv 0 (envelope ''span.started'' [(''agentId'', JStr ''X'')])
        initialStore)) ''X'' = None"
proof -
  have k: "kind (envelope ''span.started'' [(''agentId'', JStr ''X'')]) = SPAN_STARTED"
    by (simp add: envelope_kind SPAN_STARTED_def)
  have i: "agentIdOf (envelope ''span.started'' [(''agentId'', JStr ''X'')]) = ''X''"
    by (simp add: envelope_agentId)
  have n: "agents initialStore ''X'' = None"
    by (simp add: initialStore_def)
  have "agents (after (addEvent demoEnv 0 (envelope ''span.started'' [(''agentId'', JStr ''X'')])
      initialStore)) = agents initialStore"
    by (rule unknown_agent_dropped) (simp_all add: i n k plain_keys)
  then show ?thesis using k i n by simp
qed

text \<open>
  Claim C4, amended. For an envelope that names an agent id for which the registry has no
  entry and inherits no member: an \<open>agent.activated\<close> envelope returns, creates the
  agent with defaults (its id and name, included, specialist, no evidence, no tool calls,
  progress 0) and applies the activation (status \<open>activated\<close>, trace count 1, start time,
  the id among the active agents); a span start or end, an executor invoked or completed
  and a query start or complete leave the agent registry as it was, so no agent is created.

  The ids that name an inherited member (\<open>constructor\<close>, \<open>toString\<close>, ...) are left
  out of the amended claim: for them \<open>agents[agentId]\<close> finds the inherited member, the
  guard of every case passes and the activation skips the defaults, as
  \<open>inherited_name_passes_guard\<close> below shows.
\<close>

theorem lazy_creation_on_activation_only:
  assumes "agentIdOf event \<noteq> []" "agents st (agentIdOf event) = None"
    and "agentIdOf event \<notin> set (inheritedAgentKeys st)"
  shows "(kind event = AGENT_ACTIVATED \<longrightarrow>
      returns (addEvent env now event st)
      \<and> (\<exists>a. agents (after (addEvent env now event st)) (agentIdOf event) = Some a
        \<and> ag_id a = Some (agentIdOf event)
        \<and> ag_name a = Some (orS (agentNameOf event) (agentIdOf event))
        \<and> ag_status a = Some Activated \<and> included a = Some True
        \<and> category a = Some Specialist
        \<and> evidence a = Some [] \<and> toolCalls a = Some [] \<and> traceCount a = Some 1
        \<and> percentComplete a = Some 0 \<and> executionCount a = Some 0
        \<and> ag_startedAt a = Some (ts event) \<and> lastAction a = Some ''activated'')
      \<and> agentIdOf event \<in> set (activeAgentIds (after (addEvent env now event st))))
    \<and> (kind event = SPAN_STARTED \<or> kind event = SPAN_ENDED \<or> kind event = EXECUTOR_INVOKED
        \<or> kind event = EXECUTOR_COMPLETED \<or> kind event = DATA_SOURCE_QUERY_START
        \<or> kind event = DATA_SOURCE_QUERY_COMPLETE \<longrightarrow>
      agents (after (addEvent env now event st)) = agents st)"
proof -
  have r: "returns (addEvent env now event st)" if "kind event = AGENT_ACTIVATED"
    using that by (simp add: addEvent_dispatch)
  show ?thesis
    using assms r activation_creates [of event st env now]
      activation_active [of event env now st] unknown_agent_dropped [of st event env now]
    by blast
qed

text \<open>The amended claim at an unknown agent X: activated, and \<open>executor.completed\<close>.\<close>

theorem lazy_creation_on_activation_only_witness:
  "(\<exists>a. agents (after (addEvent demoEnv 0
            (envelope ''agent.activated'' [(''agentId'', JStr ''X'')]) initialStore)) ''X''
          = Some a
        \<and> ag_id a = Some ''X'' \<and> ag_status a = Some Activated \<and> traceCount a = Some 1
        \<and> evidence a = Some [])
   \<and> agents (after (addEvent demoEnv 0
        (envelope ''executor.completed'' [(''agentId'', JStr ''X'')]) initialStore))
      = agents initialStore"
proof -
  have i: "agentIdOf (envelope k [(''agentId'', JStr ''X'')]) = ''X''" for k
    by (simp add: envelope_agentId)
  have n: "agents initialStore ''X'' = None"
    by (simp add: initialStore_def)
  have k1: "kind (envelope ''agent.activated'' [(''agentId'', JStr ''X'')]) = AGENT_ACTIVATED"
    by (simp add: envelope_kind AGENT_ACTIVATED_def)
  have k2: "kind (envelope ''executor.completed'' [(''agentId'', JStr ''X'')]) = EXECUTOR_COMPLETED"
    by (simp add: envelope_kind EXECUTOR_COMPLETED_def)
  have h1: "agentIdOf (envelope k [(''agentId'', JStr ''X'')]) \<noteq> []" for k
    by (simp add: i)
  have h2: "agents initialStore (agentIdOf (envelope k [(''agentId'', JStr ''X'')])) = None" for k
    by (simp add: i n)
  have h3: "agentIdOf (envelope k [(''agentId'', JStr ''X'')])
      \<notin> set (inheritedAgentKeys initialStore)" for k
    by (simp add: i plain_keys)
  note t1 = lazy_creation_on_activation_only [OF h1 h2 h3, of "''agent.activated''" demoEnv 0,
      THEN conjunct1, rule_format, OF k1]
  note t2 = lazy_creation_on_activation_only [OF h1 h2 h3, of "''executor.completed''" demoEnv 0,
      THEN conjunct2, rule_format]
  have 1: "\<exists>a. agents (after (addEvent demoEnv 0
            (envelope ''agent.activated'' [(''agentId'', JStr ''X'')]) initialStore)) ''X''
          = Some a
        \<and> ag_id a = Some ''X'' \<and> ag_status a = Some Activated \<and> traceCount a = Some 1
        \<and> evidence a = Some []"
    using t1 by (auto simp add: i)
  have 2: "agents (after (addEvent demoEnv 0
        (envelope ''executor.completed'' [(''agentId'', JStr ''X'')]) initialStore))
      = agents initialStore"
    using t2 k2 by blast
  show ?thesis using 1 2 by blast
qed

text \<open>
  An agent id that names a member of \<open>Object.prototype\<close> passes the guard of the other
  cases: \<open>span.started\<close> for \<open>constructor\<close> stores an object that has a status and no id,
  and \<open>agent.activated\<close> for it skips the defaults.
\<close>

lemma inherited_name_passes_guard:
  "\<exists>a. agents (after (addEvent env now
            (envelope ''span.started'' [(''agentId'', JStr ''constructor'')]) initialStore))
          ''constructor'' = Some a
      \<and> ag_status a = Some Thinking \<and> ag_id a = None \<and> evidence a = None"
  "\<exists>a. agents (after (addEvent env now
            (envelope ''agent.activated'' [(''agentId'', JStr ''constructor'')]) initialStore))
          ''constructor'' = Some a
      \<and> ag_status a = Some Activated \<and> ag_id a = None \<and> evidence a = None"
proof -
  have l: "agentAt (updateRunFromEvent e (admit env now e initialStore)) ''constructor''
      = Some emptyAgent" for e
    by (simp add: lookup_frame agentAt_def initialStore_def inheritedAgentKeys_def
        ObjectPrototypeKeys_def)
  show "\<exists>a. agents (after (addEvent env now
            (envelope ''span.started'' [(''agentId'', JStr ''constructor'')]) initialStore))
          ''constructor'' = Some a
      \<and> ag_status a = Some Thinking \<and> ag_id a = None \<and> evidence a = None"
    by (simp add: addEvent_dispatch envelope_kind SPAN_STARTED_def onSpanStarted_def
        envelope_agentId knownAgent_def l Let_def incrementAgentTrace_def emptyAgent_def)
  show "\<exists>a. agents (after (addEvent env now
            (envelope ''agent.activated'' [(''agentId'', JStr ''constructor'')]) initialStore))
          ''constructor'' = Some a
      \<and> ag_status a = Some Activated \<and> ag_id a = None \<and> evidence a = None"
    by (simp add: addEvent_dispatch envelope_kind AGENT_ACTIVATED_def onAgentActivated_def
        envelope_agentId l Let_def incrementAgentTrace_def emptyAgent_def)
qed


section \<open>Data-source statistics\<close>

lemma query_complete_ds:
  assumes "kind event = DATA_SOURCE_QUERY_COMPLETE"
    and "dataSources st (payloadString (payloadOf event) ''sourceType'' []) = Some (Known ds)"
    and "\<forall>a. knownAgent st (agentIdOf event) = Some a \<longrightarrow> evidence a \<noteq> None"
  shows "returns (addEvent env now event st)"
    and "dataSources (after (addEvent env now event st))
           (payloadString (payloadOf event) ''sourceType'' []) =
         Some (Known (ds\<lparr> queryCount := queryCount ds + 1,
                   totalResults := totalResults ds + payloadNumber (payloadOf event) ''resultCount'' 0,
                   avgLatencyMs :=
                     Math_round ((avgLatencyMs ds * queryCount ds
                                  + payloadNumber (payloadOf event) ''latencyMs'' 0)
                                 / (queryCount ds + 1)),
                   isActive := False,
                   lastQueryTime := Some (ts event),
                   lastQuerySummary :=
                     Some (payloadString (payloadOf event) ''querySummary''
                             (payloadString (payloadOf event) ''sourceType'' [] @ '' query'')),
                   lastAgentId := orUU (agentIdOf event) (lastAgentId ds),
                   ds_provider :=
                     providerOr (payloadString (payloadOf event) ''sourceProvider'' [])
                       (ds_provider ds),
                   sparkline := sliceLast 19 (sparkline ds)
                                @ [payloadNumber (payloadOf event) ''latencyMs'' 0] \<rparr>))"
proof -
  let ?s = "updateRunFromEvent event (admit env now event st)"
  have d: "sourceAt ?s (payloadString (payloadOf event) ''sourceType'' []) = Some (Known ds)"
    using assms(2) by (simp add: lookup_frame own_sourceAt)
  have a: "\<forall>a. knownAgent ?s (agentIdOf event) = Some a \<longrightarrow> evidence a \<noteq> None"
    using assms(3) by (simp add: lookup_frame)
  show "returns (addEvent env now event st)"
    using assms(1) d a
    by (cases "knownAgent ?s (agentIdOf event)")
       (auto simp add: addEvent_def process_dispatch onQueryComplete_def Let_def)
  show "dataSources (after (addEvent env now event st))
           (payloadString (payloadOf event) ''sourceType'' []) =
         Some (Known (ds\<lparr> queryCount := queryCount ds + 1,
                   totalResults := totalResults ds + payloadNumber (payloadOf event) ''resultCount'' 0,
                   avgLatencyMs :=
                     Math_round ((avgLatencyMs ds * queryCount ds
                                  + payloadNumber (payloadOf event) ''latencyMs'' 0)
                                 / (queryCount ds + 1)),
                   isActive := False,
                   lastQueryTime := Some (ts event),
                   lastQuerySummary :=
                     Some (payloadString (payloadOf event) ''querySummary''
                             (payloadString (payloadOf event) ''sourceType'' [] @ '' query'')),
                   lastAgentId := orUU (agentIdOf event) (lastAgentId ds),
                   ds_provider :=
                     providerOr (payloadString (payloadOf event) ''sourceProvider'' [])
                       (ds_provider ds),
                   sparkline := sliceLast 19 (sparkline ds)
                                @ [payloadNumber (payloadOf event) ''latencyMs'' 0] \<rparr>))"
    using assms(1) d a
    by (cases "knownAgent ?s (agentIdOf event)")
       (auto simp add: after_addEvent process_dispatch onQueryComplete_def Let_def)
qed

lemma default_sql:
  "createDefaultDataSources ''SQL'' =
     Some (Known \<lparr> ds_id = ''SQL'', ds_name = ''Azure PostgreSQL'', ds_type = ''SQL'',
            ds_provider = Azure, platformLabel = ''Azure Data'', queryCount = 0,
            totalResults = 0, avgLatencyMs = 0, isActive = False, lastQueryTime = None,
            lastQuerySummary = None, lastAgentId = None, sparkline = [] \<rparr>)"
  by (simp add: createDefaultDataSources_def DATA_SOURCE_DEFAULTS_def defaultDataSource_def)

lemma sqlQuery_facts:
  "kind (sqlQuery l) = DATA_SOURCE_QUERY_COMPLETE"
  "payloadString (payloadOf (sqlQuery l)) ''sourceType'' [] = ''SQL''"
  "payloadNumber (payloadOf (sqlQuery l)) ''latencyMs'' 0 = l"
  "payloadNumber (payloadOf (sqlQuery l)) ''resultCount'' 0 = 7"
  "agentIdOf (sqlQuery l) = ''A''"
  by (simp_all add: sqlQuery_def envelope_kind envelope_payload envelope_agentId
      DATA_SOURCE_QUERY_COMPLETE_def payloadString_def payloadNumber_def)

lemma Math_round_int: "Math_round (of_int n) = of_int n"
proof -
  have "\<lfloor>(of_int n :: rat) + 1 / 2\<rfloor> = n"
    by (rule floor_unique) simp_all
  then show ?thesis by (simp add: Math_round_def)
qed






lemma rosterStore_agents:
  "\<exists>a. agents rosterStore ''A'' = Some a \<and> ag_status a = Some Idle \<and> traceCount a = Some 0
       \<and> evidence a = Some [] \<and> percentComplete a = Some 0"
  "\<exists>b. agents rosterStore ''B'' = Some b \<and> ag_status b = Some Excluded"
  by (simp_all add: rosterStore_def initializeAgents_def assignAgent_def newAgent_def
      agentA_def agentB_def Let_def)



section \<open>The roster scenario\<close>

lemma step_activated:
  assumes "kind event = AGENT_ACTIVATED" "agentIdOf event \<noteq> []"
    and "agents st (agentIdOf event) = Some a"
  shows "returns (addEvent env now event st)"
    and "\<exists>a'. agents (after (addEvent env now event st)) (agentIdOf event) = Some a'
      \<and> ag_status a' = Some Activated \<and> evidence a' = evidence a"
    and "j \<noteq> agentIdOf event \<Longrightarrow> agents (after (addEvent env now event st)) j = agents st j"
    and "dataSources (after (addEvent env now event st)) = dataSources st"
  using assms
  by (simp_all add: addEvent_dispatch onAgentActivated_def Let_def update_frame
      admit_frame lookup_frame own_agentAt incrementAgentTrace_def)

lemma step_query_start:
  assumes "kind event = DATA_SOURCE_QUERY_START" "agentIdOf event \<noteq> []"
    and "agents st (agentIdOf event) = Some a"
    and "payloadString (payloadOf event) ''sourceType'' [] = src" "src \<noteq> []"
    and "dataSources st src = Some (Known d)"
  shows "returns (addEvent env now event st)"
    and "\<exists>a'. agents (after (addEvent env now event st)) (agentIdOf event) = Some a'
      \<and> ag_status a' = Some Querying \<and> evidence a' = evidence a"
    and "j \<noteq> agentIdOf event \<Longrightarrow> agents (after (addEvent env now event st)) j = agents st j"
    and "\<exists>d'. dataSources (after (addEvent env now event st)) src = Some (Known d')
      \<and> queryCount d' = queryCount d \<and> avgLatencyMs d' = avgLatencyMs d \<and> isActive d'"
  using assms
  by (simp_all add: addEvent_dispatch onQueryStart_def knownAgent_def Let_def
      update_frame admit_frame lookup_frame own_agentAt own_sourceAt incrementAgentTrace_def)

lemma step_query_complete:
  assumes "kind event = DATA_SOURCE_QUERY_COMPLETE" "agentIdOf event \<noteq> []"
    and "agents st (agentIdOf event) = Some a" "evidence a = Some evs"
    and "dataSources st (payloadString (payloadOf event) ''sourceType'' []) = Some (Known d)"
  shows "\<exists>a' e. agents (after (addEvent env now event st)) (agentIdOf event) = Some a'
      \<and> ag_status a' = Some Thinking \<and> evidence a' = Some (evs @ [e])"
    and "j \<noteq> agentIdOf event \<Longrightarrow> agents (after (addEvent env now event st)) j = agents st j"
  using assms
  by (simp_all add: after_addEvent process_dispatch onQueryComplete_def knownAgent_def Let_def
      update_frame admit_frame lookup_frame own_agentAt own_sourceAt incrementAgentTrace_def)

lemma step_span_ended:
  assumes "kind event = SPAN_ENDED" "payloadOf event ''success'' \<noteq> Some (JBool False)"
    and "agentIdOf event \<noteq> []" "agents st (agentIdOf event) = Some a"
  shows "returns (addEvent env now event st)"
    and "\<exists>a'. agents (after (addEvent env now event st)) (agentIdOf event) = Some a'
      \<and> ag_status a' = Some Done \<and> evidence a' = evidence a"
    and "j \<noteq> agentIdOf event \<Longrightarrow> agents (after (addEvent env now event st)) j = agents st j"
    and "dataSources (after (addEvent env now event st)) = dataSources st"
  using assms
  by (simp_all add: addEvent_dispatch onSpanEnded_def knownAgent_def Let_def
      update_frame admit_frame lookup_frame own_agentAt incrementAgentTrace_def)

lemma scenario_events:
  "kind activatedA = AGENT_ACTIVATED" "agentIdOf activatedA = ''A''"
  "kind queryStartA = DATA_SOURCE_QUERY_START" "agentIdOf queryStartA = ''A''"
  "payloadString (payloadOf queryStartA) ''sourceType'' [] = ''SQL''"
  "kind spanEndedA = SPAN_ENDED" "agentIdOf spanEndedA = ''A''"
  "payloadOf spanEndedA ''success'' \<noteq> Some (JBool False)"
  by (simp_all add: activatedA_def queryStartA_def spanEndedA_def envelope_kind
      envelope_agentId envelope_payload kind_defs payloadString_def)

lemma rosterStore_sql: "dataSources rosterStore ''SQL'' = createDefaultDataSources ''SQL''"
  by (simp add: rosterStore_def initializeAgents_def Let_def initialStore_def)

text \<open>
  Claim C2. From the store initialised with the roster [A (included), B (excluded)],
  admitting in order \<open>agent.activated\<close> (A), \<open>data_source.query_start\<close> (A, SQL),
  \<open>data_source.query_complete\<close> (A, SQL, latency 120, 7 results) and \<open>span.ended\<close>
  (A, success) gives a state in which A is \<open>done\<close> with one piece of evidence, the SQL
  source has query count 1 and average latency 120, and B is \<open>excluded\<close>; each of the
  four calls returns. This holds for every runtime and every clock reading.
\<close>

theorem roster_scenario:
  "returns (addEvent env n1 activatedA rosterStore)
   \<and> returns (addEvent env n2 queryStartA (after (addEvent env n1 activatedA rosterStore)))
   \<and> returns (addEvent env n3 (sqlQuery 120)
        (after (addEvent env n2 queryStartA (after (addEvent env n1 activatedA rosterStore)))))
   \<and> returns (addEvent env n4 spanEndedA
        (after (addEvent env n3 (sqlQuery 120)
          (after (addEvent env n2 queryStartA
            (after (addEvent env n1 activatedA rosterStore)))))))
   \<and> (\<exists>a. agents
          (after (addEvent env n4 spanEndedA
            (after (addEvent env n3 (sqlQuery 120)
              (after (addEvent env n2 queryStartA
                (after (addEvent env n1 activatedA rosterStore)))))))) ''A'' = Some a
        \<and> ag_status a = Some Done \<and> map_option length (evidence a) = Some 1)
   \<and> (\<exists>d. dataSources
          (after (addEvent env n4 spanEndedA
            (after (addEvent env n3 (sqlQuery 120)
              (after (addEvent env n2 queryStartA
                (after (addEvent env n1 activatedA rosterStore)))))))) ''SQL''
          = Some (Known d)
        \<and> queryCount d = 1 \<and> avgLatencyMs d = 120)
   \<and> (\<exists>b. agents
          (after (addEvent env n4 spanEndedA
            (after (addEvent env n3 (sqlQuery 120)
              (after (addEvent env n2 queryStartA
                (after (addEvent env n1 activatedA rosterStore)))))))) ''B'' = Some b
        \<and> ag_status b = Some Excluded)"
proof -
  define s1 where "s1 = after (addEvent env n1 activatedA rosterStore)"
  define s2 where "s2 = after (addEvent env n2 queryStartA s1)"
  define s3 where "s3 = after (addEvent env n3 (sqlQuery 120) s2)"
  define s4 where "s4 = after (addEvent env n4 spanEndedA s3)"
  obtain a0 b0 where r: "agents rosterStore ''A'' = Some a0" "evidence a0 = Some []"
      "agents rosterStore ''B'' = Some b0" "ag_status b0 = Some Excluded"
    using rosterStore_agents by blast
  obtain d0 where d0: "dataSources rosterStore ''SQL'' = Some (Known d0)" "queryCount d0 = 0"
      "avgLatencyMs d0 = 0"
    by (simp add: rosterStore_sql default_sql)
  have R1: "returns (addEvent env n1 activatedA rosterStore)"
    using step_activated(1) [of activatedA rosterStore a0 env n1] r
    by (simp add: scenario_events)
  obtain a1 where a1: "agents s1 ''A'' = Some a1" "evidence a1 = Some []"
    using step_activated(2) [of activatedA rosterStore a0 env n1] r
    by (auto simp add: scenario_events s1_def)
  have b1: "agents s1 ''B'' = Some b0"
    using step_activated(3) [where event = activatedA and st = rosterStore and a = a0
        and j = "''B''" and env = env and now = n1] r
    by (simp add: scenario_events s1_def)
  have sq1: "dataSources s1 ''SQL'' = Some (Known d0)"
    using step_activated(4) [of activatedA rosterStore a0 env n1] r d0
    by (simp add: scenario_events s1_def)
  have R2: "returns (addEvent env n2 queryStartA s1)"
    using step_query_start(1) [of queryStartA s1 a1 "''SQL''" d0 env n2] a1 sq1
    by (simp add: scenario_events)
  obtain a2 where a2: "agents s2 ''A'' = Some a2" "evidence a2 = Some []"
    using step_query_start(2) [of queryStartA s1 a1 "''SQL''" d0 env n2] a1 sq1
    by (auto simp add: scenario_events s2_def)
  have b2: "agents s2 ''B'' = Some b0"
    using step_query_start(3) [where event = queryStartA and st = s1 and a = a1 and src = "''SQL''"
        and d = d0 and j = "''B''" and env = env and now = n2] a1 sq1 b1
    by (simp add: scenario_events s2_def)
  obtain d2 where d2: "dataSources s2 ''SQL'' = Some (Known d2)" "queryCount d2 = 0"
      "avgLatencyMs d2 = 0"
    using step_query_start(4) [of queryStartA s1 a1 "''SQL''" d0 env n2] a1 sq1 d0
    by (auto simp add: scenario_events s2_def)
  have sq2: "dataSources s2 (payloadString (payloadOf (sqlQuery 120)) ''sourceType'' [])
      = Some (Known d2)"
    by (simp add: d2 sqlQuery_facts)
  have ev2: "\<forall>a. knownAgent s2 (agentIdOf (sqlQuery 120)) = Some a \<longrightarrow> evidence a \<noteq> None"
    using a2 by (simp add: sqlQuery_facts knownAgent_def own_agentAt)
  have R3: "returns (addEvent env n3 (sqlQuery 120) s2)"
    using query_complete_ds(1) [OF sqlQuery_facts(1) sq2 ev2] .
  obtain a3 e where a3: "agents s3 ''A'' = Some a3" "evidence a3 = Some [e]"
    using step_query_complete(1) [of "sqlQuery 120" s2 a2 "[]" d2 env n3] a2 sq2
    by (auto simp add: sqlQuery_facts s3_def)
  have b3: "agents s3 ''B'' = Some b0"
    using step_query_complete(2) [where event = "sqlQuery 120" and st = s2 and a = a2
        and evs = "[]" and d = d2 and j = "''B''" and env = env and now = n3] a2 b2 sq2
    by (simp add: sqlQuery_facts s3_def)
  have r120: "Math_round 120 = 120"
    using Math_round_int [of 120] by simp
  obtain d3 where d3: "dataSources s3 ''SQL'' = Some (Known d3)" "queryCount d3 = 1"
      "avgLatencyMs d3 = 120"
    using query_complete_ds(2) [OF sqlQuery_facts(1) sq2 ev2, of env n3]
    by (simp add: sqlQuery_facts s3_def d2 r120)
  have R4: "returns (addEvent env n4 spanEndedA s3)"
    using step_span_ended(1) [of spanEndedA s3 a3 env n4] a3
    by (simp add: scenario_events)
  obtain a4 where a4: "agents s4 ''A'' = Some a4" "ag_status a4 = Some Done"
      "evidence a4 = Some [e]"
    using step_span_ended(2) [of spanEndedA s3 a3 env n4] a3
    by (auto simp add: scenario_events s4_def)
  have b4: "agents s4 ''B'' = Some b0"
    using step_span_ended(3) [where event = spanEndedA and st = s3 and a = a3
        and j = "''B''" and env = env and now = n4] a3 b3
    by (simp add: scenario_events s4_def)
  have ds4: "dataSources s4 = dataSources s3"
    using step_span_ended(4) [of spanEndedA s3 a3 env n4] a3
    by (simp add: scenario_events s4_def)
  have A: "\<exists>a. agents s4 ''A'' = Some a \<and> ag_status a = Some Done
      \<and> map_option length (evidence a) = Some 1"
    by (simp add: a4)
  have D: "\<exists>d. dataSources s4 ''SQL'' = Some (Known d) \<and> queryCount d = 1
      \<and> avgLatencyMs d = 120"
    by (simp add: ds4 d3)
  have B: "\<exists>b. agents s4 ''B'' = Some b \<and> ag_status b = Some Excluded"
    by (simp add: b4 r)
  show ?thesis
    using R1 R2 R3 R4 A D B unfolding s4_def s3_def s2_def s1_def by blast
qed


section \<open>Agents: duplicates\<close>







end
